theory Spec2Isabelle
  imports Main "HOL-Library.Sublist"
begin

section \<open>JavaScript values the request and session layer handles\<close>

text \<open>
  Plain JSON data: what a caller passes as a request body, what \<^verbatim>\<open>JSON.parse\<close> returns
  and what a \<^verbatim>\<open>throw\<close> of a non-Error value carries. Objects keep their properties in
  insertion order.
\<close>

datatype json =
    JNull
  | JBool bool
  | JNum int
  | JStr string
  | JArr "json list"
  | JObj "(string \<times> json) list"

text \<open>JavaScript truthiness (\<^verbatim>\<open>if (v)\<close>, \<^verbatim>\<open>v && w\<close>, \<^verbatim>\<open>v || w\<close>) on these values.\<close>

fun truthy :: "json \<Rightarrow> bool" where
  "truthy JNull = False"
| "truthy (JBool b) = b"
| "truthy (JNum n) = (n \<noteq> 0)"
| "truthy (JStr s) = (s \<noteq> [])"
| "truthy (JArr xs) = True"
| "truthy (JObj kvs) = True"

text \<open>
  A value of type \<^verbatim>\<open>string | null | undefined\<close> is truthy when it is a non-empty string.
\<close>

fun truthy_str :: "string option \<Rightarrow> bool" where
  "truthy_str None = False"
| "truthy_str (Some s) = (s \<noteq> [])"

text \<open>\<^verbatim>\<open>a || b\<close> for an optional string \<^verbatim>\<open>a\<close> and a string \<^verbatim>\<open>b\<close>.\<close>

definition or_else :: "string option \<Rightarrow> string \<Rightarrow> string" where
  "or_else a b = (case a of None \<Rightarrow> b | Some s \<Rightarrow> if s = [] then b else s)"

text \<open>\<^verbatim>\<open>String.prototype.startsWith\<close> (position 0).\<close>

definition startsWith :: "string \<Rightarrow> string \<Rightarrow> bool" where
  "startsWith s p = (take (length p) s = p)"

section \<open>Thrown values\<close>

type_synonym field_errors = "(string \<times> string list) list"

text \<open>
  What a \<^verbatim>\<open>catch\<close> clause can receive: an \<^verbatim>\<open>ApiError\<close> (message, status, errors), any
  other \<^verbatim>\<open>Error\<close> instance with its message (\<^verbatim>\<open>TypeError\<close>, \<^verbatim>\<open>SyntaxError\<close>, ...), a
  thrown value that is no \<^verbatim>\<open>Error\<close> instance, or \<^verbatim>\<open>undefined\<close>.
\<close>

datatype thrown =
    ApiError string nat "field_errors option"
  | Error string
  | Thrown json
  | ThrownUndefined

text \<open>\<^verbatim>\<open>error instanceof ApiError\<close>\<close>

fun is_ApiError :: "thrown \<Rightarrow> bool" where
  "is_ApiError (ApiError m st es) = True"
| "is_ApiError e = False"

text \<open>\<^verbatim>\<open>error instanceof Error\<close>; \<^verbatim>\<open>ApiError extends Error\<close>.\<close>

fun is_Error :: "thrown \<Rightarrow> bool" where
  "is_Error (ApiError m st es) = True"
| "is_Error (Error m) = True"
| "is_Error e = False"

text \<open>\<^verbatim>\<open>error.message\<close> of an \<^verbatim>\<open>Error\<close> instance.\<close>

fun error_message :: "thrown \<Rightarrow> string" where
  "error_message (ApiError m st es) = m"
| "error_message (Error m) = m"
| "error_message e = []"

text \<open>
  The message of the \<^verbatim>\<open>TypeError\<close> raised by reading a property of \<^verbatim>\<open>null\<close> (the wording
  is the engine's; this is V8's).
\<close>

definition null_property_message :: "string \<Rightarrow> string" where
  "null_property_message prop =
     ''Cannot read properties of null (reading '' @ [CHR 0x27] @ prop @ [CHR 0x27] @ '')''"

section \<open>BaseController: the retry utility\<close>

text \<open>
  What \<^verbatim>\<open>createRetryOperation\<close> does, in order: invocations of the operation (numbered
  from 1) and waits (\<^verbatim>\<open>setTimeout(resolve, delay * attempt)\<close>, in milliseconds).
\<close>

datatype retry_event = Invoked int | Waited int

text \<open>
  The \<^verbatim>\<open>for\<close> loop of \<^verbatim>\<open>createRetryOperation\<close>, from the state \<open>(attempt, lastError)\<close>.
  The operation is given by the outcome of each of its invocations: \<open>operation k\<close> is what
  the \<open>k\<close>-th call settles to. \<open>maxRetries\<close> and \<open>delay\<close> are integers. \<open>lastError\<close> is
  \<open>None\<close> while the variable is unassigned; \<^verbatim>\<open>throw lastError!\<close> then throws
  \<^verbatim>\<open>undefined\<close>.
\<close>

function createRetryOperation_loop ::
  "(nat \<Rightarrow> thrown + 'a) \<Rightarrow> int \<Rightarrow> int \<Rightarrow> int \<Rightarrow> thrown option \<Rightarrow> retry_event list
     \<Rightarrow> (thrown + 'a) \<times> retry_event list" where
  "createRetryOperation_loop operation maxRetries delay attempt lastError trace =
     (if attempt \<le> maxRetries then
        (case operation (nat attempt) of
           Inr v \<Rightarrow> (Inr v, trace @ [Invoked attempt])
         | Inl error \<Rightarrow>
             (let lastError' = (if is_Error error then error else Error ''Unknown error'')
              in if attempt = maxRetries then (Inl lastError', trace @ [Invoked attempt])
                 else createRetryOperation_loop operation maxRetries delay (attempt + 1)
                        (Some lastError') (trace @ [Invoked attempt, Waited (delay * attempt)])))
      else (Inl (case lastError of None \<Rightarrow> ThrownUndefined | Some e \<Rightarrow> e), trace))"
  by pat_completeness auto
termination
  by (relation "measure (\<lambda>(operation, maxRetries, delay, attempt, lastError, trace).
        nat (maxRetries + 1 - attempt))") auto

declare createRetryOperation_loop.simps [simp del]

text \<open>
  \<^verbatim>\<open>createRetryOperation(operation, maxRetries = 3, delay = 1000)\<close>: the result (\<open>Inl\<close> is
  the rejection) and the trace of invocations and waits.
\<close>

definition createRetryOperation ::
  "(nat \<Rightarrow> thrown + 'a) \<Rightarrow> int option \<Rightarrow> int option \<Rightarrow> (thrown + 'a) \<times> retry_event list" where
  "createRetryOperation operation maxRetries_opt delay_opt =
     (let maxRetries = (case maxRetries_opt of None \<Rightarrow> 3 | Some m \<Rightarrow> m);
          delay = (case delay_opt of None \<Rightarrow> 1000 | Some d \<Rightarrow> d)
      in createRetryOperation_loop operation maxRetries delay 1 None [])"

text \<open>The number of times the operation was invoked.\<close>

definition invocations :: "retry_event list \<Rightarrow> nat" where
  "invocations trace = length (filter (\<lambda>e. case e of Invoked k \<Rightarrow> True | Waited d \<Rightarrow> False) trace)"

text \<open>An operation whose every invocation rejects with the string \<^verbatim>\<open>'boom'\<close>.\<close>

definition rejects_with_string :: "nat \<Rightarrow> thrown + unit" where
  "rejects_with_string k = Inl (Thrown (JStr ''boom''))"

text \<open>An operation that rejects twice and then resolves, and one that always rejects.\<close>

definition fails_twice :: "nat \<Rightarrow> thrown + string" where
  "fails_twice k = (if k < 3 then Inl (Error ''unavailable'') else Inr ''done'')"

definition always_fails :: "nat \<Rightarrow> thrown + string" where
  "always_fails k = Inl (ApiError ''Request timeout'' 408 None)"

section \<open>BaseApiService: the HTTP client\<close>

subsection \<open>Requests and responses\<close>

text \<open>
  \<^verbatim>\<open>ApiResponse<T>\<close>, the envelope. An absent optional property is \<open>None\<close>.
\<close>

record pagination =
  page :: "nat option"
  limit :: "nat option"
  total :: "nat option"
  totalPages :: "nat option"

record 'a ApiResponse =
  success :: bool
  data :: "'a option"
  message :: "string option"
  errors :: "field_errors option"
  meta :: "pagination option"

text \<open>
  What \<^verbatim>\<open>await response.json()\<close> yields, as the code reads it: the JSON value \<^verbatim>\<open>null\<close>, on
  which every property read throws a \<^verbatim>\<open>TypeError\<close>, or any other value, read through the
  \<^verbatim>\<open>ApiResponse\<close> interface.
\<close>

datatype 'a parsed = JsonNull | JsonEnvelope "'a ApiResponse"

text \<open>
  The \<^verbatim>\<open>Response\<close> of \<^verbatim>\<open>fetch\<close>: \<open>json_result\<close> is \<open>None\<close> when \<^verbatim>\<open>response.json()\<close>
  rejects (the body is not JSON).
\<close>

record 'a Response =
  status :: nat
  statusText :: string
  json_result :: "'a parsed option"

text \<open>\<^verbatim>\<open>response.ok\<close>: the status is in the range 200-299.\<close>

definition ok :: "'a Response \<Rightarrow> bool" where
  "ok response = (200 \<le> status response \<and> status response \<le> 299)"

datatype http_method = GET | POST | PUT | PATCH | DELETE

text \<open>
  A request body: a \<^verbatim>\<open>FormData\<close> (its entries) or plain data. A \<^verbatim>\<open>FormData\<close> object is
  truthy.
\<close>

datatype req_body = FormData "(string \<times> string) list" | Plain json

fun body_truthy :: "req_body option \<Rightarrow> bool" where
  "body_truthy None = False"
| "body_truthy (Some (FormData entries)) = True"
| "body_truthy (Some (Plain v)) = truthy v"

text \<open>\<^verbatim>\<open>body instanceof FormData\<close>\<close>

fun is_FormData :: "req_body option \<Rightarrow> bool" where
  "is_FormData (Some (FormData entries)) = True"
| "is_FormData b = False"

text \<open>
  \<^verbatim>\<open>RequestOptions\<close>. A property the caller left out is \<open>None\<close>. A query parameter whose
  value is \<^verbatim>\<open>null\<close> or \<^verbatim>\<open>undefined\<close> has the value \<open>None\<close>.
\<close>

record RequestOptions =
  req_method :: "http_method option"
  headers :: "(string \<rightharpoonup> string) option"
  body :: "req_body option"
  params :: "(string \<times> string option) list option"
  requireAuth :: "bool option"
  timeout :: "nat option"

text \<open>The options object \<^verbatim>\<open>{}\<close>.\<close>

definition no_options :: RequestOptions where
  "no_options = \<lparr>req_method = None, headers = None, body = None, params = None,
                  requireAuth = None, timeout = None\<rparr>"

text \<open>
  The body of the \<^verbatim>\<open>RequestInit\<close> handed to \<^verbatim>\<open>fetch\<close>: the \<^verbatim>\<open>FormData\<close> itself, or the
  text \<^verbatim>\<open>JSON.stringify(body)\<close>.
\<close>

datatype sent_body = SentFormData "(string \<times> string) list" | SentText string

text \<open>
  The \<^verbatim>\<open>RequestInit\<close> object \<^verbatim>\<open>requestConfig\<close>; \<open>init_requireAuth\<close> is the stray property
  the rest spread copies into it.
\<close>

record RequestInit =
  init_method :: http_method
  init_headers :: "string \<rightharpoonup> string"
  init_requireAuth :: "bool option"
  init_body :: "sent_body option"

text \<open>
  How a \<^verbatim>\<open>fetch\<close> promise behaves: it settles after some milliseconds, resolved with a
  response or rejected, or it stays pending for ever.
\<close>

datatype 'a fetch_result = Resolves "'a Response" | Rejects thrown

datatype 'a fetch_behaviour = Settles nat "'a fetch_result" | Pending

subsection \<open>The platform and the mutable state\<close>

text \<open>
  The platform the services run on: the base URL given to the constructor, the network
  (\<^verbatim>\<open>fetch\<close>, by URL and request), which of two tasks that are due at the same instant the
  event loop runs first, and \<^verbatim>\<open>JSON.stringify\<close> and \<^verbatim>\<open>JSON.parse\<close> (\<open>Inl\<close> is the
  \<^verbatim>\<open>SyntaxError\<close>).
\<close>

record 'a env =
  baseUrl :: string
  fetch :: "string \<Rightarrow> RequestInit \<Rightarrow> 'a fetch_behaviour"
  fetch_first_on_tie :: bool
  JSON_stringify :: "json \<Rightarrow> string"
  JSON_parse :: "string \<Rightarrow> thrown + json"

text \<open>
  The state the services mutate: \<^verbatim>\<open>localStorage\<close>, the calls made to \<^verbatim>\<open>fetch\<close> so far and
  what was written with \<^verbatim>\<open>console.error\<close>.
\<close>

record world =
  localStorage :: "string \<rightharpoonup> string"
  fetch_log :: "(string \<times> RequestInit) list"
  console_error :: "(string \<times> thrown) list"

definition TOKEN_KEY :: string where
  "TOKEN_KEY = ''career_compass_token''"

definition USER_KEY :: string where
  "USER_KEY = ''career_compass_user''"

definition REFRESH_TOKEN_KEY :: string where
  "REFRESH_TOKEN_KEY = ''career_compass_refresh_token''"

definition defaultTimeout :: nat where
  "defaultTimeout = 30000"

text \<open>\<^verbatim>\<open>AuthService.getToken\<close>, \<^verbatim>\<open>getRefreshToken\<close> and \<^verbatim>\<open>getAuthHeaders\<close>.\<close>

definition getToken :: "world \<Rightarrow> string option" where
  "getToken w = localStorage w TOKEN_KEY"

definition getRefreshToken :: "world \<Rightarrow> string option" where
  "getRefreshToken w = localStorage w REFRESH_TOKEN_KEY"

definition getAuthHeaders :: "world \<Rightarrow> (string \<rightharpoonup> string)" where
  "getAuthHeaders w =
     (case getToken w of
        None \<Rightarrow> Map.empty
      | Some token \<Rightarrow> if token \<noteq> [] then [''Authorization'' \<mapsto> ''Bearer '' @ token]
                      else Map.empty)"

subsection \<open>Building the request\<close>

definition hex_digit :: "nat \<Rightarrow> char" where
  "hex_digit n = ''0123456789ABCDEF'' ! (n mod 16)"

definition uri_unreserved :: "char \<Rightarrow> bool" where
  "uri_unreserved c =
     (c \<in> set ''ABCDEFGHIJKLMNOPQRSTUVWXYZabcdefghijklmnopqrstuvwxyz0123456789-_.!~*()''
      \<or> c = CHR 0x27)"

text \<open>
  \<^verbatim>\<open>encodeURIComponent\<close> on a well-formed string, given as its UTF-8 bytes: every byte
  outside the unreserved set becomes \<^verbatim>\<open>%XX\<close>.
\<close>

definition encodeURIComponent :: "string \<Rightarrow> string" where
  "encodeURIComponent s =
     concat (map (\<lambda>c. if uri_unreserved c then [c]
                      else [CHR ''%'', hex_digit (of_char c div 16), hex_digit (of_char c mod 16)]) s)"

text \<open>\<^verbatim>\<open>Array.prototype.join\<close>\<close>

fun join :: "string \<Rightarrow> string list \<Rightarrow> string" where
  "join sep [] = []"
| "join sep [x] = x"
| "join sep (x # y # ys) = x @ sep @ join sep (y # ys)"

text \<open>The constructor: \<^verbatim>\<open>baseUrl.replace(/\/$/, '')\<close> removes one trailing slash.\<close>

definition strip_trailing_slash :: "string \<Rightarrow> string" where
  "strip_trailing_slash s = (if s \<noteq> [] \<and> last s = CHR ''/'' then butlast s else s)"

definition buildUrl :: "'a env \<Rightarrow> string \<Rightarrow> (string \<times> string option) list option \<Rightarrow> string" where
  "buildUrl env endpoint params_opt =
     (let url = strip_trailing_slash (baseUrl env)
                  @ (if startsWith endpoint ''/'' then [] else ''/'') @ endpoint
      in case params_opt of
           None \<Rightarrow> url
         | Some ps \<Rightarrow>
             if ps = [] then url
             else
               (let queryString =
                      join ''&''
                        (map (\<lambda>(key, v). encodeURIComponent key @ ''=''
                                 @ encodeURIComponent (case v of None \<Rightarrow> [] | Some x \<Rightarrow> x))
                           (filter (\<lambda>(key, v). v \<noteq> None) ps))
                in if queryString \<noteq> [] then url @ ''?'' @ queryString else url))"

definition default_headers :: "string \<rightharpoonup> string" where
  "default_headers =
     [''Content-Type'' \<mapsto> ''application/json'', ''Accept'' \<mapsto> ''application/json'']"

text \<open>The caller-supplied headers, none when the property is absent.\<close>

definition caller_headers :: "RequestOptions \<Rightarrow> (string \<rightharpoonup> string)" where
  "caller_headers options = (case headers options of None \<Rightarrow> Map.empty | Some h \<Rightarrow> h)"

text \<open>
  \<^verbatim>\<open>prepareHeaders\<close>: the object spread is \<open>++\<close> (the right operand wins), and so is
  \<^verbatim>\<open>Object.assign(headers, authHeaders)\<close>.
\<close>

definition prepareHeaders :: "world \<Rightarrow> RequestOptions \<Rightarrow> (string \<rightharpoonup> string)" where
  "prepareHeaders w options =
     (let hs = default_headers ++ caller_headers options
      in if requireAuth options \<noteq> Some False then hs ++ getAuthHeaders w else hs)"

text \<open>
  The \<^verbatim>\<open>requestConfig\<close> that \<^verbatim>\<open>request\<close> builds. \<^verbatim>\<open>restOptions\<close> holds the properties of
  \<^verbatim>\<open>options\<close> other than method, body, params and timeout, that is \<^verbatim>\<open>headers\<close> and
  \<^verbatim>\<open>requireAuth\<close> when present, and \<^verbatim>\<open>{ method, headers, ...restOptions }\<close> lets them
  replace what stands before the spread. \<^verbatim>\<open>delete headers['Content-Type']\<close> acts on the
  object \<^verbatim>\<open>prepareHeaders\<close> returned, which is the \<^verbatim>\<open>headers\<close> of \<^verbatim>\<open>requestConfig\<close> only
  when the spread did not replace it.
\<close>

definition requestConfig :: "'a env \<Rightarrow> world \<Rightarrow> RequestOptions \<Rightarrow> RequestInit" where
  "requestConfig env w options =
     (let m = (case req_method options of None \<Rightarrow> GET | Some m \<Rightarrow> m);
          hs = prepareHeaders w options;
          with_body = (body_truthy (body options) \<and> m \<noteq> GET);
          hs' = (if with_body \<and> is_FormData (body options) then hs(''Content-Type'' := None)
                 else hs)
      in \<lparr>init_method = m,
          init_headers = (case headers options of None \<Rightarrow> hs' | Some h \<Rightarrow> h),
          init_requireAuth = requireAuth options,
          init_body =
            (if with_body then
               (case body options of
                  None \<Rightarrow> None
                | Some (FormData entries) \<Rightarrow> Some (SentFormData entries)
                | Some (Plain v) \<Rightarrow> Some (SentText (JSON_stringify env v)))
             else None)\<rparr>)"

subsection \<open>Sending the request\<close>

definition digit_char :: "nat \<Rightarrow> char" where
  "digit_char n = ''0123456789'' ! (n mod 10)"

text \<open>The decimal text of a number, as a template literal prints it.\<close>

fun show_nat :: "nat \<Rightarrow> string" where
  "show_nat n = (if n < 10 then [digit_char n] else show_nat (n div 10) @ [digit_char n])"

declare show_nat.simps [simp del]

text \<open>
  \<^verbatim>\<open>processResponse\<close>. A body that is not JSON is replaced by a failure envelope. On a
  status outside the success range the \<^verbatim>\<open>ApiError\<close> is built from \<^verbatim>\<open>responseData.message\<close>
  and \<^verbatim>\<open>responseData.errors\<close>; reading them from \<^verbatim>\<open>null\<close> throws the \<^verbatim>\<open>TypeError\<close> instead.
\<close>

definition processResponse :: "'a Response \<Rightarrow> thrown + 'a parsed" where
  "processResponse response =
     (let responseData =
            (case json_result response of
               None \<Rightarrow> JsonEnvelope \<lparr>success = False, data = None,
                         message = Some ''Invalid response format from server'',
                         errors = None, meta = None\<rparr>
             | Some d \<Rightarrow> d)
      in if \<not> ok response then
           (case responseData of
              JsonNull \<Rightarrow> Inl (Error (null_property_message ''message''))
            | JsonEnvelope e \<Rightarrow>
                Inl (ApiError
                       (or_else (message e)
                          (''HTTP '' @ show_nat (status response) @ '': '' @ statusText response))
                       (status response) (errors e)))
         else Inr responseData)"

text \<open>
  \<^verbatim>\<open>Promise.race([fetch(url, requestConfig), timeoutPromise])\<close>: the timer rejects with
  \<^verbatim>\<open>ApiError('Request timeout', 408)\<close> after \<open>tmo\<close> milliseconds; whichever settles first
  decides.
\<close>

definition race :: "bool \<Rightarrow> nat \<Rightarrow> 'a fetch_behaviour \<Rightarrow> thrown + 'a Response" where
  "race fetch_first tmo behaviour =
     (case behaviour of
        Pending \<Rightarrow> Inl (ApiError ''Request timeout'' 408 None)
      | Settles t r \<Rightarrow>
          if t < tmo \<or> (t = tmo \<and> fetch_first) then
            (case r of Resolves response \<Rightarrow> Inr response | Rejects e \<Rightarrow> Inl e)
          else Inl (ApiError ''Request timeout'' 408 None))"

text \<open>
  \<^verbatim>\<open>request\<close>: the settled value (\<open>Inl\<close> is the rejection) and the state afterwards.
\<close>

definition request ::
  "'a env \<Rightarrow> world \<Rightarrow> string \<Rightarrow> RequestOptions \<Rightarrow> (thrown + 'a parsed) \<times> world" where
  "request env w endpoint options =
     (let tmo = (case timeout options of None \<Rightarrow> defaultTimeout | Some t \<Rightarrow> t);
          url = buildUrl env endpoint (params options);
          config = requestConfig env w options;
          w' = w\<lparr>fetch_log := fetch_log w @ [(url, config)]\<rparr>;
          tried = (case race (fetch_first_on_tie env) tmo (fetch env url config) of
                     Inl e \<Rightarrow> Inl e
                   | Inr response \<Rightarrow> processResponse response)
      in (case tried of
            Inr r \<Rightarrow> Inr r
          | Inl error \<Rightarrow>
              if is_ApiError error then Inl error
              else Inl (ApiError (if is_Error error then error_message error
                                  else ''Network request failed'') 0 None),
          w'))"

text \<open>The verb wrappers: \<^verbatim>\<open>{ ...options, method: 'POST', body: data }\<close> and the like.\<close>

definition get ::
  "'a env \<Rightarrow> world \<Rightarrow> string \<Rightarrow> (string \<times> string option) list option \<Rightarrow> RequestOptions
     \<Rightarrow> (thrown + 'a parsed) \<times> world" where
  "get env w endpoint ps options =
     request env w endpoint (options\<lparr>req_method := Some GET, params := ps\<rparr>)"

definition post ::
  "'a env \<Rightarrow> world \<Rightarrow> string \<Rightarrow> req_body option \<Rightarrow> RequestOptions
     \<Rightarrow> (thrown + 'a parsed) \<times> world" where
  "post env w endpoint d options =
     request env w endpoint (options\<lparr>req_method := Some POST, body := d\<rparr>)"

section \<open>AuthService\<close>

text \<open>
  A \<^verbatim>\<open>User\<close> is the object the backend sent, given by its properties; the service hands
  it on and stores its JSON text without reading a property.
\<close>

type_synonym User = "(string \<times> json) list"

record LoginCredentials =
  email :: string
  password :: string

record SignupCredentials = LoginCredentials +
  firstName :: string
  lastName :: string
  confirmPassword :: string

text \<open>The credentials as the objects that are passed around.\<close>

definition LoginCredentials_json :: "LoginCredentials \<Rightarrow> json" where
  "LoginCredentials_json c = JObj [(''email'', JStr (email c)), (''password'', JStr (password c))]"

definition SignupCredentials_json :: "SignupCredentials \<Rightarrow> json" where
  "SignupCredentials_json c =
     JObj [(''email'', JStr (email c)), (''password'', JStr (password c)),
           (''firstName'', JStr (firstName c)), (''lastName'', JStr (lastName c)),
           (''confirmPassword'', JStr (confirmPassword c))]"

text \<open>
  The rest of a destructuring \<^verbatim>\<open>const { key, ...rest } = object\<close>: the object without the
  property \<open>key\<close>.
\<close>

fun object_rest :: "string \<Rightarrow> json \<Rightarrow> json" where
  "object_rest key (JObj kvs) = JObj (filter (\<lambda>(k, v). k \<noteq> key) kvs)"
| "object_rest key v = v"

text \<open>
  The payloads: \<^verbatim>\<open>{ token, refreshToken? }\<close> of a refresh and
  \<^verbatim>\<open>{ user, token, refreshToken? }\<close> of a login or signup.
\<close>

record TokenData =
  token :: string
  refreshToken :: "string option"

record AuthData = TokenData +
  user :: User

record AuthResponse =
  auth_success :: bool
  auth_user :: "User option"
  auth_token :: "string option"
  auth_message :: "string option"
  auth_errors :: "field_errors option"

record RefreshResult =
  refresh_success :: bool
  refresh_token :: "string option"

definition setAuthData :: "'a env \<Rightarrow> world \<Rightarrow> User \<Rightarrow> string \<Rightarrow> string option \<Rightarrow> world" where
  "setAuthData env w u t refresh =
     (let ls = (localStorage w)(TOKEN_KEY \<mapsto> t, USER_KEY \<mapsto> JSON_stringify env (JObj u))
      in w\<lparr>localStorage :=
             (case refresh of
                None \<Rightarrow> ls
              | Some r \<Rightarrow> if r \<noteq> [] then ls(REFRESH_TOKEN_KEY \<mapsto> r) else ls)\<rparr>)"

definition clearAuthData :: "world \<Rightarrow> world" where
  "clearAuthData w =
     w\<lparr>localStorage :=
         (localStorage w)(TOKEN_KEY := None, USER_KEY := None, REFRESH_TOKEN_KEY := None)\<rparr>"

text \<open>
  \<^verbatim>\<open>getStoredUser\<close>: \<^verbatim>\<open>userData ? JSON.parse(userData) : null\<close>. \<open>Inl\<close> is the
  \<^verbatim>\<open>SyntaxError\<close> of \<^verbatim>\<open>JSON.parse\<close>.
\<close>

definition getStoredUser :: "'a env \<Rightarrow> world \<Rightarrow> thrown + json" where
  "getStoredUser env w =
     (case localStorage w USER_KEY of
        None \<Rightarrow> Inr JNull
      | Some userData \<Rightarrow> if userData \<noteq> [] then JSON_parse env userData else Inr JNull)"

text \<open>\<^verbatim>\<open>isAuthenticated\<close>: \<^verbatim>\<open>!!(token && user)\<close>, both read first.\<close>

definition isAuthenticated :: "'a env \<Rightarrow> world \<Rightarrow> thrown + bool" where
  "isAuthenticated env w =
     (let t = getToken w
      in case getStoredUser env w of
           Inl e \<Rightarrow> Inl e
         | Inr u \<Rightarrow> Inr (truthy_str t \<and> truthy u))"

text \<open>Writing with \<^verbatim>\<open>console.error\<close>.\<close>

definition log_error :: "string \<Rightarrow> thrown \<Rightarrow> world \<Rightarrow> world" where
  "log_error label e w = w\<lparr>console_error := console_error w @ [(label, e)]\<rparr>"

text \<open>What a \<^verbatim>\<open>catch\<close> block of the service puts into the message of its result.\<close>

definition caught_message :: "thrown \<Rightarrow> string" where
  "caught_message error =
     (if is_Error error then error_message error else ''Network error. Please try again.'')"

definition auth_failure :: "string \<Rightarrow> field_errors option \<Rightarrow> AuthResponse" where
  "auth_failure m es =
     \<lparr>auth_success = False, auth_user = None, auth_token = None, auth_message = Some m,
      auth_errors = es\<rparr>"

text \<open>
  The payload of a settled request that returned an envelope with \<^verbatim>\<open>success\<close> true and a
  \<^verbatim>\<open>data\<close> payload; \<open>None\<close> for every other outcome.
\<close>

definition success_payload :: "thrown + 'a parsed \<Rightarrow> 'a option" where
  "success_payload settled =
     (case settled of
        Inr (JsonEnvelope response) \<Rightarrow> if success response then data response else None
      | _ \<Rightarrow> None)"

subsection \<open>login\<close>

text \<open>The POST that \<^verbatim>\<open>login\<close> makes.\<close>

definition login_post ::
  "AuthData env \<Rightarrow> world \<Rightarrow> LoginCredentials \<Rightarrow> (thrown + AuthData parsed) \<times> world" where
  "login_post env w credentials =
     post env w ''/auth/login'' (Some (Plain (LoginCredentials_json credentials)))
       (no_options\<lparr>requireAuth := Some False\<rparr>)"

text \<open>
  What follows the POST inside the \<^verbatim>\<open>try\<close> block, for a settled POST: \<open>Inl\<close> is what the
  block throws.
\<close>

definition login_after ::
  "AuthData env \<Rightarrow> (thrown + AuthData parsed) \<times> world \<Rightarrow> (thrown + AuthResponse) \<times> world" where
  "login_after env settled =
     (case settled of
        (Inl e, w1) \<Rightarrow> (Inl e, w1)
      | (Inr JsonNull, w1) \<Rightarrow> (Inl (Error (null_property_message ''success'')), w1)
      | (Inr (JsonEnvelope response), w1) \<Rightarrow>
          (case (success response, data response) of
             (True, Some d) \<Rightarrow>
               (Inr \<lparr>auth_success = True, auth_user = Some (user d), auth_token = Some (token d),
                     auth_message = Some ''Login successful'', auth_errors = None\<rparr>,
                setAuthData env w1 (user d) (token d) (refreshToken d))
           | _ \<Rightarrow> (Inr (auth_failure (or_else (message response) ''Login failed'')
                          (errors response)), w1)))"

text \<open>\<^verbatim>\<open>login\<close>: the \<^verbatim>\<open>try\<close> block and its \<^verbatim>\<open>catch\<close>.\<close>

definition login ::
  "AuthData env \<Rightarrow> world \<Rightarrow> LoginCredentials \<Rightarrow> (thrown + AuthResponse) \<times> world" where
  "login env w credentials =
     (case login_after env (login_post env w credentials) of
        (Inr r, w1) \<Rightarrow> (Inr r, w1)
      | (Inl error, w1) \<Rightarrow>
          (Inr (auth_failure (caught_message error) None), log_error ''Login error:'' error w1))"

subsection \<open>signup\<close>

definition signup_post ::
  "AuthData env \<Rightarrow> world \<Rightarrow> SignupCredentials \<Rightarrow> (thrown + AuthData parsed) \<times> world" where
  "signup_post env w credentials =
     (let signupData = object_rest ''confirmPassword'' (SignupCredentials_json credentials)
      in post env w ''/auth/signup'' (Some (Plain signupData))
           (no_options\<lparr>requireAuth := Some False\<rparr>))"

definition signup_after ::
  "AuthData env \<Rightarrow> (thrown + AuthData parsed) \<times> world \<Rightarrow> (thrown + AuthResponse) \<times> world" where
  "signup_after env settled =
     (case settled of
        (Inl e, w1) \<Rightarrow> (Inl e, w1)
      | (Inr JsonNull, w1) \<Rightarrow> (Inl (Error (null_property_message ''success'')), w1)
      | (Inr (JsonEnvelope response), w1) \<Rightarrow>
          (case (success response, data response) of
             (True, Some d) \<Rightarrow>
               (Inr \<lparr>auth_success = True, auth_user = Some (user d), auth_token = Some (token d),
                     auth_message = Some ''Signup successful'', auth_errors = None\<rparr>,
                setAuthData env w1 (user d) (token d) (refreshToken d))
           | _ \<Rightarrow> (Inr (auth_failure (or_else (message response) ''Signup failed'')
                          (errors response)), w1)))"

definition signup ::
  "AuthData env \<Rightarrow> world \<Rightarrow> SignupCredentials \<Rightarrow> (thrown + AuthResponse) \<times> world" where
  "signup env w credentials =
     (case signup_after env (signup_post env w credentials) of
        (Inr r, w1) \<Rightarrow> (Inr r, w1)
      | (Inl error, w1) \<Rightarrow>
          (Inr (auth_failure (caught_message error) None), log_error ''Signup error:'' error w1))"

subsection \<open>logout\<close>

definition logout_post :: "'a env \<Rightarrow> world \<Rightarrow> (thrown + 'a parsed) \<times> world" where
  "logout_post env w = post env w ''/auth/logout'' (Some (Plain (JObj []))) no_options"

text \<open>The \<^verbatim>\<open>try\<close> block of \<^verbatim>\<open>logout\<close>.\<close>

definition logout_try :: "'a env \<Rightarrow> world \<Rightarrow> (thrown + unit) \<times> world" where
  "logout_try env w =
     (let t = getToken w
      in if truthy_str t then
           (case logout_post env w of
              (Inl e, w1) \<Rightarrow> (Inl e, w1)
            | (Inr r, w1) \<Rightarrow> (Inr (), w1))
         else (Inr (), w))"

text \<open>\<^verbatim>\<open>logout\<close>: \<^verbatim>\<open>try\<close>, \<^verbatim>\<open>catch\<close> (log the error) and \<^verbatim>\<open>finally\<close> (clear the keys).\<close>

definition logout :: "'a env \<Rightarrow> world \<Rightarrow> (thrown + unit) \<times> world" where
  "logout env w =
     (case logout_try env w of
        (Inr u, w1) \<Rightarrow> (Inr (), clearAuthData w1)
      | (Inl error, w1) \<Rightarrow> (Inr (), clearAuthData (log_error ''Logout error:'' error w1)))"

text \<open>The options \<^verbatim>\<open>post\<close> hands to \<^verbatim>\<open>request\<close> for the logout call.\<close>

definition logout_options :: RequestOptions where
  "logout_options = no_options\<lparr>req_method := Some POST, body := Some (Plain (JObj []))\<rparr>"

subsection \<open>refreshAuthToken\<close>

definition refresh_post ::
  "TokenData env \<Rightarrow> world \<Rightarrow> string \<Rightarrow> (thrown + TokenData parsed) \<times> world" where
  "refresh_post env w r =
     post env w ''/auth/refresh'' (Some (Plain (JObj [(''refreshToken'', JStr r)])))
       (no_options\<lparr>requireAuth := Some False\<rparr>)"

definition refresh_failed :: RefreshResult where
  "refresh_failed = \<lparr>refresh_success = False, refresh_token = None\<rparr>"

definition refresh_after ::
  "(thrown + TokenData parsed) \<times> world \<Rightarrow> (thrown + RefreshResult) \<times> world" where
  "refresh_after settled =
     (case settled of
        (Inl e, w1) \<Rightarrow> (Inl e, w1)
      | (Inr JsonNull, w1) \<Rightarrow> (Inl (Error (null_property_message ''success'')), w1)
      | (Inr (JsonEnvelope response), w1) \<Rightarrow>
          (case (success response, data response) of
             (True, Some d) \<Rightarrow>
               (let ls = (localStorage w1)(TOKEN_KEY \<mapsto> token d)
                in (Inr \<lparr>refresh_success = True, refresh_token = Some (token d)\<rparr>,
                    w1\<lparr>localStorage :=
                         (case refreshToken d of
                            None \<Rightarrow> ls
                          | Some r \<Rightarrow> if r \<noteq> [] then ls(REFRESH_TOKEN_KEY \<mapsto> r) else ls)\<rparr>))
           | _ \<Rightarrow> (Inr refresh_failed, w1)))"

text \<open>The \<^verbatim>\<open>try\<close> block of \<^verbatim>\<open>refreshAuthToken\<close>.\<close>

definition refresh_try :: "TokenData env \<Rightarrow> world \<Rightarrow> (thrown + RefreshResult) \<times> world" where
  "refresh_try env w =
     (case getRefreshToken w of
        None \<Rightarrow> (Inr refresh_failed, w)
      | Some r \<Rightarrow>
          if r = [] then (Inr refresh_failed, w)
          else refresh_after (refresh_post env w r))"

definition refreshAuthToken ::
  "TokenData env \<Rightarrow> world \<Rightarrow> (thrown + RefreshResult) \<times> world" where
  "refreshAuthToken env w =
     (case refresh_try env w of
        (Inr r, w1) \<Rightarrow> (Inr r, w1)
      | (Inl error, w1) \<Rightarrow> (Inr refresh_failed, log_error ''Refresh token error:'' error w1))"

section \<open>The signup form\<close>

text \<open>
  \<^verbatim>\<open>signupSchema\<close>: the issues it raises, each with its path. The test behind
  \<^verbatim>\<open>z.string().email\<close> belongs to the validation library and is the parameter \<open>is_email\<close>.
  The \<^verbatim>\<open>refine\<close> check runs on the object of five strings.
\<close>

definition signupSchema :: "(string \<Rightarrow> bool) \<Rightarrow> SignupCredentials \<Rightarrow> (string \<times> string) list" where
  "signupSchema is_email d =
     (if length (firstName d) < 2
      then [(''firstName'', ''First name must be at least 2 characters'')] else [])
     @ (if length (lastName d) < 2
        then [(''lastName'', ''Last name must be at least 2 characters'')] else [])
     @ (if \<not> is_email (email d)
        then [(''email'', ''Please enter a valid email address'')] else [])
     @ (if length (password d) < 8
        then [(''password'', ''Password must be at least 8 characters'')] else [])
     @ (if password d = confirmPassword d then []
        else [(''confirmPassword'', ''Passwords don'' @ [CHR 0x27] @ ''t match'')])"

record SubmitResult =
  submit_success :: bool
  submit_message :: "string option"
  submit_errors :: "field_errors option"

text \<open>\<^verbatim>\<open>SignupFormController.handleSignup\<close>, without the \<^verbatim>\<open>onSuccess\<close> callback.\<close>

definition handleSignup ::
  "AuthData env \<Rightarrow> world \<Rightarrow> SignupCredentials \<Rightarrow> SubmitResult \<times> world" where
  "handleSignup env w credentials =
     (case signup env w credentials of
        (Inr response, w1) \<Rightarrow>
          if auth_success response
          then (\<lparr>submit_success = True, submit_message = None, submit_errors = None\<rparr>, w1)
          else (\<lparr>submit_success = False,
                 submit_message = Some (or_else (auth_message response) ''Registration failed''),
                 submit_errors = auth_errors response\<rparr>, w1)
      | (Inl error, w1) \<Rightarrow>
          (\<lparr>submit_success = False,
            submit_message = Some ''An unexpected error occurred. Please try again.'',
            submit_errors = None\<rparr>,
           log_error ''Signup submission error:'' error w1))"

text \<open>
  Submitting the form: \<^verbatim>\<open>handleSubmit(onSubmit)\<close> with \<^verbatim>\<open>zodResolver(signupSchema)\<close> calls
  \<^verbatim>\<open>onSubmit\<close> only when the schema raises no issue.
\<close>

datatype submit_outcome = ValidationFailed "(string \<times> string) list" | Submitted SubmitResult

definition submit ::
  "(string \<Rightarrow> bool) \<Rightarrow> AuthData env \<Rightarrow> world \<Rightarrow> SignupCredentials \<Rightarrow> submit_outcome \<times> world" where
  "submit is_email env w d =
     (let issues = signupSchema is_email d
      in if issues \<noteq> [] then (ValidationFailed issues, w)
         else (case handleSignup env w d of (r, w1) \<Rightarrow> (Submitted r, w1)))"

section \<open>A concrete platform\<close>

text \<open>
  A serialiser for the platform's \<^verbatim>\<open>JSON.stringify\<close>, a backend that answers every request
  in the same way, and stores to start from. They give the functions above concrete
  inputs to run on.
\<close>

definition quote :: "string \<Rightarrow> string" where
  "quote s =
     [CHR 0x22]
     @ concat (map (\<lambda>c. if c = CHR 0x22 \<or> c = CHR 0x5C then [CHR 0x5C, c] else [c]) s)
     @ [CHR 0x22]"

definition show_int :: "int \<Rightarrow> string" where
  "show_int i = (if i < 0 then ''-'' @ show_nat (nat (- i)) else show_nat (nat i))"

fun json_text :: "json \<Rightarrow> string" where
  "json_text JNull = ''null''"
| "json_text (JBool b) = (if b then ''true'' else ''false'')"
| "json_text (JNum n) = show_int n"
| "json_text (JStr s) = quote s"
| "json_text (JArr xs) = ''['' @ join '','' (map json_text xs) @ '']''"
| "json_text (JObj kvs) =
     ''{'' @ join '','' (map (\<lambda>(k, v). quote k @ '':'' @ json_text v) kvs) @ ''}''"

definition sample_user :: User where
  "sample_user = [(''id'', JStr ''u1''), (''email'', JStr ''a@b.com'')]"

text \<open>A parser that knows the text of the sample user and rejects every other text.\<close>

definition sample_parse :: "string \<Rightarrow> thrown + json" where
  "sample_parse s =
     (if s = json_text (JObj sample_user) then Inr (JObj sample_user)
      else Inl (Error ''Unexpected token''))"

definition platform :: "'a fetch_behaviour \<Rightarrow> 'a env" where
  "platform behaviour =
     \<lparr>baseUrl = ''http://localhost:8000/api'', fetch = (\<lambda>url config. behaviour),
      fetch_first_on_tie = False, JSON_stringify = json_text, JSON_parse = sample_parse\<rparr>"

definition responds :: "nat \<Rightarrow> nat \<Rightarrow> string \<Rightarrow> 'a parsed option \<Rightarrow> 'a fetch_behaviour" where
  "responds t st txt b = Settles t (Resolves \<lparr>status = st, statusText = txt, json_result = b\<rparr>)"

definition envelope_ok :: "'a \<Rightarrow> 'a ApiResponse" where
  "envelope_ok d = \<lparr>success = True, data = Some d, message = None, errors = None, meta = None\<rparr>"

definition envelope_failed :: "string \<Rightarrow> 'a ApiResponse" where
  "envelope_failed m =
     \<lparr>success = False, data = None, message = Some m, errors = None, meta = None\<rparr>"

definition stored :: "(string \<rightharpoonup> string) \<Rightarrow> world" where
  "stored ls = \<lparr>localStorage = ls, fetch_log = [], console_error = []\<rparr>"

definition login_backend :: "string \<Rightarrow> string option \<Rightarrow> AuthData env" where
  "login_backend t r =
     platform (responds 5 200 ''OK''
       (Some (JsonEnvelope (envelope_ok \<lparr>token = t, refreshToken = r, user = sample_user\<rparr>))))"

definition refusing_backend :: "'a env" where
  "refusing_backend =
     platform (responds 5 401 ''Unauthorized''
       (Some (JsonEnvelope (envelope_failed ''Invalid credentials''))))"

definition sample_credentials :: LoginCredentials where
  "sample_credentials = \<lparr>email = ''a@b.com'', password = ''secret1''\<rparr>"

text \<open>A store whose token entry holds the empty string.\<close>

definition empty_token_stored :: world where
  "empty_token_stored = stored [TOKEN_KEY \<mapsto> [], USER_KEY \<mapsto> json_text (JObj sample_user)]"

text \<open>
  The options of an upload (\<^verbatim>\<open>uploadFile\<close> posts a \<^verbatim>\<open>FormData\<close>), options with a header of
  the caller's, and the options of an unauthenticated call.
\<close>

definition upload_options :: RequestOptions where
  "upload_options =
     no_options\<lparr>req_method := Some POST, body := Some (FormData [(''file'', ''cv.pdf'')])\<rparr>"

definition custom_header_options :: RequestOptions where
  "custom_header_options =
     no_options\<lparr>headers := Some [''Accept'' \<mapsto> ''text/csv'', ''X-Trace'' \<mapsto> ''1''],
                 requireAuth := Some False\<rparr>"

text \<open>Options of an authenticated call that carry one header of the caller's.\<close>

definition traced_options :: RequestOptions where
  "traced_options = no_options\<lparr>headers := Some [''X-Trace'' \<mapsto> ''1'']\<rparr>"

definition public_options :: RequestOptions where
  "public_options = no_options\<lparr>requireAuth := Some False\<rparr>"

definition refresh_backend :: "string \<Rightarrow> string option \<Rightarrow> TokenData env" where
  "refresh_backend t r =
     platform (responds 5 200 ''OK''
       (Some (JsonEnvelope (envelope_ok \<lparr>token = t, refreshToken = r\<rparr>))))"

definition sample_signup :: SignupCredentials where
  "sample_signup =
     \<lparr>email = ''a@b.com'', password = ''secret123'', firstName = ''Ada'',
      lastName = ''Byron'', confirmPassword = ''secret124''\<rparr>"

definition contains_at :: "string \<Rightarrow> bool" where
  "contains_at s = (CHR ''@'' \<in> set s)"

definition signed_out :: world where
  "signed_out = stored Map.empty"

definition signed_in :: world where
  "signed_in = stored [TOKEN_KEY \<mapsto> ''T0'', USER_KEY \<mapsto> json_text (JObj sample_user),
                       REFRESH_TOKEN_KEY \<mapsto> ''R0'']"

section \<open>AppController: route protection and session activity\<close>

datatype theme = light | dark | system

text \<open>
  \<^verbatim>\<open>AppState\<close>. Dates are their \<^verbatim>\<open>getTime()\<close> value, milliseconds since the epoch. The
  user and preference objects are opaque to the functions below.
\<close>

record ('u, 'p) AppState =
  isInitialized :: bool
  isAuthenticated_flag :: bool
  currentUser :: "'u option"
  userPreferences :: "'p option"
  theme_of :: theme
  isOnline :: bool
  lastActivity :: int

definition protectedRoutes :: "string list" where
  "protectedRoutes = [''/upload'', ''/results'', ''/history'', ''/profile'', ''/settings'']"

text \<open>\<^verbatim>\<open>protectedRoutes.some(route => path.startsWith(route))\<close>\<close>

definition isProtectedRoute :: "string \<Rightarrow> bool" where
  "isProtectedRoute path = list_ex (\<lambda>route. startsWith path route) protectedRoutes"

text \<open>
  \<^verbatim>\<open>isSessionActive(maxInactiveMinutes = 30)\<close>. The clock read \<^verbatim>\<open>new Date()\<close> is the
  argument \<open>now\<close>; an omitted argument is \<open>None\<close>.
\<close>

definition isSessionActive :: "('u, 'p) AppState \<Rightarrow> int \<Rightarrow> int option \<Rightarrow> bool" where
  "isSessionActive appState now maxInactiveMinutes_opt =
     (let maxInactiveMinutes = (case maxInactiveMinutes_opt of None \<Rightarrow> 30 | Some m \<Rightarrow> m);
          inactiveTime = now - lastActivity appState;
          maxInactiveTime = maxInactiveMinutes * 60 * 1000
      in inactiveTime < maxInactiveTime)"

text \<open>The state the constructor builds, with \<open>lastActivity\<close> read from the clock.\<close>

definition appState_at :: "int \<Rightarrow> (unit, unit) AppState" where
  "appState_at t =
     \<lparr>isInitialized = False, isAuthenticated_flag = False, currentUser = None,
      userPreferences = None, theme_of = system, isOnline = True, lastActivity = t\<rparr>"

section \<open>Properties\<close>

lemma lastActivity_appState_at [simp]: "lastActivity (appState_at t) = t"
  by (simp add: appState_at_def)

lemma startsWith_prefix: "startsWith s p = prefix p s"
proof
  assume "startsWith s p"
  then have "s = p @ drop (length p) s"
    unfolding startsWith_def by (metis append_take_drop_id)
  then show "prefix p s"
    by (rule prefixI)
next
  assume "prefix p s"
  then show "startsWith s p"
    by (auto simp: startsWith_def prefix_def)
qed

text \<open>
  C10. For every path, \<open>isProtectedRoute path\<close> is true exactly when the path starts with
  one of the five fixed prefixes /upload, /results, /history, /profile, /settings. The
  paths /, /login and /signup are not protected, and every extension of a protected
  prefix is.
\<close>

theorem isProtectedRoute_exact:
  "isProtectedRoute path =
     (prefix ''/upload'' path \<or> prefix ''/results'' path \<or> prefix ''/history'' path \<or>
      prefix ''/profile'' path \<or> prefix ''/settings'' path)
   \<and> isProtectedRoute ''/'' = False
   \<and> isProtectedRoute ''/login'' = False
   \<and> isProtectedRoute ''/signup'' = False
   \<and> isProtectedRoute (''/upload'' @ rest) = True
   \<and> isProtectedRoute (''/results'' @ rest) = True
   \<and> isProtectedRoute (''/history'' @ rest) = True
   \<and> isProtectedRoute (''/profile'' @ rest) = True
   \<and> isProtectedRoute (''/settings'' @ rest) = True"
  by (simp add: isProtectedRoute_def protectedRoutes_def startsWith_prefix)

text \<open>
  C4. \<open>isSessionActive(30)\<close> depends only on \<open>now - lastActivity\<close>: it is false when the
  difference exceeds 30 * 60 * 1000 ms, true when the difference is smaller, and false
  when the difference is exactly 30 * 60 * 1000 ms.
\<close>

theorem isSessionActive_30:
  "(now - lastActivity a > 30 * 60 * 1000 \<longrightarrow> isSessionActive a now (Some 30) = False)
   \<and> (now - lastActivity a < 30 * 60 * 1000 \<longrightarrow> isSessionActive a now (Some 30) = True)
   \<and> (now - lastActivity a = 30 * 60 * 1000 \<longrightarrow> isSessionActive a now (Some 30) = False)
   \<and> (now - lastActivity a = now' - lastActivity a' \<longrightarrow>
        isSessionActive a now (Some 30) = isSessionActive a' now' (Some 30))
   \<and> isSessionActive a now None = isSessionActive a now (Some 30)"
  by (simp add: isSessionActive_def)

theorem isSessionActive_30_witness:
  "isSessionActive (appState_at 1000) 1801001 (Some 30) = False
   \<and> isSessionActive (appState_at 1000) 1800999 (Some 30) = True
   \<and> isSessionActive (appState_at 1000) 1801000 (Some 30) = False
   \<and> isSessionActive (appState_at 1000) 1800999 (Some 30) =
       isSessionActive (appState_at 5000) 1804999 (Some 30)"
proof -
  have "isSessionActive (appState_at 1000) 1801001 (Some 30) = False"
    using isSessionActive_30 [of 1801001 "appState_at 1000" 0 "appState_at 0"] by simp
  moreover have "isSessionActive (appState_at 1000) 1800999 (Some 30) = True"
    using isSessionActive_30 [of 1800999 "appState_at 1000" 0 "appState_at 0"] by simp
  moreover have "isSessionActive (appState_at 1000) 1801000 (Some 30) = False"
    using isSessionActive_30 [of 1801000 "appState_at 1000" 0 "appState_at 0"] by simp
  moreover have "isSessionActive (appState_at 1000) 1800999 (Some 30) =
       isSessionActive (appState_at 5000) 1804999 (Some 30)"
    using isSessionActive_30 [of 1800999 "appState_at 1000" 1804999 "appState_at 5000"]
    by auto
  ultimately show ?thesis by blast
qed

subsection \<open>The retry utility\<close>

lemma loop_invocations_bound:
  "invocations (snd (createRetryOperation_loop operation maxRetries delay attempt lastError trace))
     \<le> invocations trace + nat (maxRetries + 1 - attempt)"
proof (induction operation maxRetries delay attempt lastError trace
    rule: createRetryOperation_loop.induct)
  case (1 operation maxRetries delay attempt lastError trace)
  show ?case
  proof (cases "attempt \<le> maxRetries")
    case False
    then show ?thesis
      by (subst createRetryOperation_loop.simps) simp
  next
    case le: True
    show ?thesis
    proof (cases "operation (nat attempt)")
      case (Inr v)
      with le show ?thesis
        by (subst createRetryOperation_loop.simps) (simp add: invocations_def)
    next
      case (Inl error)
      show ?thesis
      proof (cases "attempt = maxRetries")
        case True
        with le Inl show ?thesis
          by (subst createRetryOperation_loop.simps) (simp add: invocations_def)
      next
        case False
        from "1.IH" [OF le Inl refl False]
        have "invocations (snd (createRetryOperation_loop operation maxRetries delay (attempt + 1)
                (Some (if is_Error error then error else Error ''Unknown error''))
                (trace @ [Invoked attempt, Waited (delay * attempt)])))
              \<le> invocations (trace @ [Invoked attempt, Waited (delay * attempt)])
                  + nat (maxRetries + 1 - (attempt + 1))" .
        moreover have "invocations (trace @ [Invoked attempt, Waited (delay * attempt)])
            = invocations trace + 1"
          by (simp add: invocations_def)
        moreover have "1 + nat (maxRetries + 1 - (attempt + 1)) = nat (maxRetries + 1 - attempt)"
          using le by simp
        ultimately show ?thesis
          using le Inl False
          by (subst createRetryOperation_loop.simps) (simp add: Let_def)
      qed
    qed
  qed
qed

text \<open>Whatever the operation does, it is invoked at most \<open>maxRetries\<close> times.\<close>

lemma createRetryOperation_at_most_maxRetries:
  "invocations (snd (createRetryOperation operation (Some maxRetries) delay_opt)) \<le> nat maxRetries"
  using loop_invocations_bound [of operation maxRetries _ 1 None "[]"]
  by (simp add: createRetryOperation_def invocations_def)

text \<open>
  C3, as the code has it. With the default \<open>maxRetries = 3\<close>: an operation that fails on
  its first two invocations and succeeds on the third yields the success value; an
  operation whose first three invocations fail is invoked exactly three times, the wait
  before invocation \<open>n + 1\<close> is \<open>delay * n\<close> ms, and the rejection is the error of the third
  invocation itself when that is an \<^verbatim>\<open>Error\<close> instance and \<^verbatim>\<open>new Error('Unknown error')\<close>
  when it is any other value. With \<open>maxRetries \<le> 0\<close> the operation is not invoked at all.
\<close>

theorem createRetryOperation_default:
  "(operation 1 = Inl e1 \<and> operation 2 = Inl e2 \<and> operation 3 = Inr v \<longrightarrow>
      fst (createRetryOperation operation None delay_opt) = Inr v)
   \<and> (operation 1 = Inl e1 \<and> operation 2 = Inl e2 \<and> operation 3 = Inl e3 \<longrightarrow>
        createRetryOperation operation None (Some delay) =
          (Inl (if is_Error e3 then e3 else Error ''Unknown error''),
           [Invoked 1, Waited (delay * 1), Invoked 2, Waited (delay * 2), Invoked 3]))
   \<and> (operation 1 = Inl e1 \<and> operation 2 = Inl e2 \<and> operation 3 = Inl e3 \<longrightarrow>
        invocations (snd (createRetryOperation operation None delay_opt)) = 3)
   \<and> (maxRetries \<le> 0 \<longrightarrow>
        createRetryOperation operation (Some maxRetries) delay_opt = (Inl ThrownUndefined, []))"
  by (simp add: createRetryOperation_def createRetryOperation_loop.simps invocations_def Let_def)

theorem createRetryOperation_default_witness:
  "fst (createRetryOperation fails_twice None None) = Inr ''done''
   \<and> createRetryOperation always_fails None (Some 1000) =
        (Inl (ApiError ''Request timeout'' 408 None),
         [Invoked 1, Waited 1000, Invoked 2, Waited 2000, Invoked 3])
   \<and> invocations (snd (createRetryOperation always_fails None None)) = 3
   \<and> createRetryOperation always_fails (Some 0) None = (Inl ThrownUndefined, [])"
proof -
  have "fst (createRetryOperation fails_twice None None) = Inr ''done''"
    using createRetryOperation_default
      [of fails_twice "Error ''unavailable''" "Error ''unavailable''" "''done''" None
          "Error ''unavailable''" 0 1]
    by (simp add: fails_twice_def)
  moreover have "createRetryOperation always_fails None (Some 1000) =
        (Inl (ApiError ''Request timeout'' 408 None),
         [Invoked 1, Waited 1000, Invoked 2, Waited 2000, Invoked 3])
      \<and> invocations (snd (createRetryOperation always_fails None None)) = 3
      \<and> createRetryOperation always_fails (Some 0) None = (Inl ThrownUndefined, [])"
    using createRetryOperation_default
      [of always_fails "ApiError ''Request timeout'' 408 None"
          "ApiError ''Request timeout'' 408 None" "''done''" None
          "ApiError ''Request timeout'' 408 None" 1000 0]
    by (simp add: always_fails_def)
  ultimately show ?thesis by simp
qed

text \<open>
  The error of the last invocation is not always rethrown as it is: an operation that
  rejects with the string \<^verbatim>\<open>'boom'\<close> makes \<^verbatim>\<open>createRetryOperation\<close> reject with
  \<^verbatim>\<open>new Error('Unknown error')\<close>.
\<close>

theorem createRetryOperation_rethrow_counterexample:
  "rejects_with_string 3 = Inl (Thrown (JStr ''boom''))
   \<and> fst (createRetryOperation rejects_with_string None None) = Inl (Error ''Unknown error'')
   \<and> fst (createRetryOperation rejects_with_string None None) \<noteq> rejects_with_string 3"
  by (simp add: createRetryOperation_def createRetryOperation_loop.simps rejects_with_string_def)

subsection \<open>The HTTP client\<close>

lemma request_world:
  "snd (request env w endpoint options) =
     w\<lparr>fetch_log := fetch_log w
          @ [(buildUrl env endpoint (params options), requestConfig env w options)]\<rparr>"
  by (simp add: request_def Let_def)

lemma post_world:
  "snd (post env w endpoint d options) =
     w\<lparr>fetch_log := fetch_log w
          @ [(buildUrl env endpoint (params options),
              requestConfig env w (options\<lparr>req_method := Some POST, body := d\<rparr>))]\<rparr>"
  by (simp add: post_def request_world)

lemma post_storage [simp]: "localStorage (snd (post env w endpoint d options)) = localStorage w"
  by (simp add: post_world)

lemma or_else_nonempty: "b \<noteq> [] \<Longrightarrow> or_else a b \<noteq> []"
  by (simp add: or_else_def split: option.splits)

text \<open>
  What \<open>request\<close> settles to, by the winner of the race and the response. Each call hands
  exactly one request to \<^verbatim>\<open>fetch\<close> (\<open>request_world\<close>) and leaves \<^verbatim>\<open>localStorage\<close> alone.
\<close>

lemma request_timeout:
  assumes "fetch env (buildUrl env endpoint (params options)) (requestConfig env w options) = b"
    and "b = Pending
         \<or> (\<exists>t r. b = Settles t r \<and> (case timeout options of None \<Rightarrow> 30000 | Some x \<Rightarrow> x) < t)"
  shows "fst (request env w endpoint options) = Inl (ApiError ''Request timeout'' 408 None)"
  using assms
  by (auto simp: request_def Let_def race_def defaultTimeout_def split: option.splits)

lemma request_success:
  assumes "fetch env (buildUrl env endpoint (params options)) (requestConfig env w options)
             = Settles t (Resolves response)"
    and "t < (case timeout options of None \<Rightarrow> 30000 | Some x \<Rightarrow> x)"
    and "ok response"
  shows "fst (request env w endpoint options) =
           Inr (case json_result response of
                  None \<Rightarrow> JsonEnvelope \<lparr>success = False, data = None,
                            message = Some ''Invalid response format from server'',
                            errors = None, meta = None\<rparr>
                | Some d \<Rightarrow> d)"
  using assms
  by (auto simp: request_def Let_def race_def defaultTimeout_def processResponse_def
      split: option.splits)

lemma request_http_error:
  assumes "fetch env (buildUrl env endpoint (params options)) (requestConfig env w options)
             = Settles t (Resolves response)"
    and "t < (case timeout options of None \<Rightarrow> 30000 | Some x \<Rightarrow> x)"
    and "\<not> ok response"
    and "json_result response \<noteq> Some JsonNull"
  shows "\<exists>m es. fst (request env w endpoint options) = Inl (ApiError m (status response) es)"
  using assms
  by (auto simp: request_def Let_def race_def defaultTimeout_def processResponse_def
      split: option.splits parsed.splits)

lemma request_http_error_null:
  assumes "fetch env (buildUrl env endpoint (params options)) (requestConfig env w options)
             = Settles t (Resolves response)"
    and "t < (case timeout options of None \<Rightarrow> 30000 | Some x \<Rightarrow> x)"
    and "\<not> ok response"
    and "json_result response = Some JsonNull"
  shows "fst (request env w endpoint options) =
           Inl (ApiError (null_property_message ''message'') 0 None)"
  using assms
  by (auto simp: request_def Let_def race_def defaultTimeout_def processResponse_def
      split: option.splits parsed.splits)

lemma request_transport_failure:
  assumes "fetch env (buildUrl env endpoint (params options)) (requestConfig env w options)
             = Settles t (Rejects e)"
    and "t < (case timeout options of None \<Rightarrow> 30000 | Some x \<Rightarrow> x)"
    and "\<not> is_ApiError e"
  shows "\<exists>m. fst (request env w endpoint options) = Inl (ApiError m 0 None)"
  using assms
  by (auto simp: request_def Let_def race_def defaultTimeout_def split: option.splits)

lemma request_rejects_with_ApiError:
  "fst (request env w endpoint options) = Inl e \<Longrightarrow> is_ApiError e"
  by (auto simp: request_def Let_def split: sum.splits if_splits)

text \<open>
  C1. A response outside the success range whose body is the JSON value \<^verbatim>\<open>null\<close>: the
  \<^verbatim>\<open>TypeError\<close> of reading \<^verbatim>\<open>responseData.message\<close> is caught by \<^verbatim>\<open>request\<close> and rethrown as
  an \<^verbatim>\<open>ApiError\<close> with status 0, so the status 500 of the response is lost.
\<close>

theorem request_null_body_loses_status:
  "fst (request (platform (responds 10 500 ''Internal Server Error'' (Some JsonNull)))
          signed_in ''/analysis/stats'' (no_options :: RequestOptions))
     = (Inl (ApiError (null_property_message ''message'') 0 None) :: thrown + unit parsed)"
  by (simp add: request_def Let_def race_def defaultTimeout_def processResponse_def
      platform_def responds_def no_options_def ok_def)

subsection \<open>login\<close>

lemma login_after_cases:
  "login_after env (settled, w1) =
     (case success_payload settled of
        Some d \<Rightarrow>
          (Inr \<lparr>auth_success = True, auth_user = Some (user d), auth_token = Some (token d),
                auth_message = Some ''Login successful'', auth_errors = None\<rparr>,
           setAuthData env w1 (user d) (token d) (refreshToken d))
      | None \<Rightarrow>
          (case settled of
             Inl e \<Rightarrow> (Inl e, w1)
           | Inr JsonNull \<Rightarrow> (Inl (Error (null_property_message ''success'')), w1)
           | Inr (JsonEnvelope response) \<Rightarrow>
               (Inr (auth_failure (or_else (message response) ''Login failed'') (errors response)),
                w1)))"
  by (auto simp: login_after_def success_payload_def
      split: sum.splits parsed.splits option.splits bool.splits)

lemma login_success:
  assumes "success_payload (fst (login_post env w credentials)) = Some d"
  shows "login env w credentials =
     (Inr \<lparr>auth_success = True, auth_user = Some (user d), auth_token = Some (token d),
           auth_message = Some ''Login successful'', auth_errors = None\<rparr>,
      setAuthData env (snd (login_post env w credentials)) (user d) (token d) (refreshToken d))"
proof -
  obtain settled w1 where p: "login_post env w credentials = (settled, w1)"
    by (cases "login_post env w credentials")
  with assms have "success_payload settled = Some d" by simp
  then show ?thesis
    by (simp add: login_def p login_after_cases)
qed

lemma login_failure:
  assumes "success_payload (fst (login_post env w credentials)) = None"
  shows "\<exists>m es. fst (login env w credentials) = Inr (auth_failure m es)"
    and "localStorage (snd (login env w credentials)) = localStorage w"
proof -
  obtain settled w1 where p: "login_post env w credentials = (settled, w1)"
    by (cases "login_post env w credentials")
  with assms have n: "success_payload settled = None" by simp
  have "localStorage (snd (login_post env w credentials)) = localStorage w"
    by (simp add: login_post_def)
  then have "localStorage w1 = localStorage w"
    by (simp add: p)
  with n show "\<exists>m es. fst (login env w credentials) = Inr (auth_failure m es)"
    and "localStorage (snd (login env w credentials)) = localStorage w"
    by (auto simp: login_def p login_after_cases log_error_def split: sum.splits parsed.splits)
qed

lemma setAuthData_storage:
  "localStorage (setAuthData env w u t r) TOKEN_KEY = Some t"
  "localStorage (setAuthData env w u t r) USER_KEY = Some (JSON_stringify env (JObj u))"
  "localStorage (setAuthData env w u t r) REFRESH_TOKEN_KEY =
     (if truthy_str r then r else localStorage w REFRESH_TOKEN_KEY)"
  by (auto simp: setAuthData_def Let_def TOKEN_KEY_def USER_KEY_def REFRESH_TOKEN_KEY_def
      split: option.splits)

lemmas run_request =
  post_def request_def Let_def race_def platform_def responds_def processResponse_def ok_def
  defaultTimeout_def no_options_def success_payload_def envelope_ok_def envelope_failed_def

lemma login_backend_payload:
  "success_payload (fst (login_post (login_backend t r) w c))
     = Some \<lparr>token = t, refreshToken = r, user = sample_user\<rparr>"
  by (simp add: login_post_def login_backend_def run_request)

lemma refusing_backend_payload:
  "success_payload (fst (login_post refusing_backend w c)) = None"
  by (simp add: login_post_def refusing_backend_def run_request)

lemma sample_codec:
  "json_text (JObj sample_user) \<noteq> []"
  "sample_parse (json_text (JObj sample_user)) = Inr (JObj sample_user)"
  by (simp_all add: sample_parse_def)

lemma platform_codec [simp]:
  "JSON_stringify (platform b) = json_text" "JSON_parse (platform b) = sample_parse"
  by (simp_all add: platform_def)

text \<open>
  C2, as the code has it. \<open>login\<close> never throws: it settles to an \<^verbatim>\<open>AuthResponse\<close> for every
  outcome of the POST to /auth/login. When the POST returns an envelope with success true
  and a data payload, the result has success true and the payload's token and the JSON
  text of its user are stored under the token and user keys; the refresh token is stored
  under its key when it is a non-empty string and the key is left as it was otherwise;
  \<open>isAuthenticated\<close> is then true provided the token is a non-empty string (and the
  platform's JSON text of the user is non-empty and parses back to the user). For every
  other outcome the result has success false and a message, and \<^verbatim>\<open>localStorage\<close> is
  unchanged.
\<close>

theorem login_structured:
  "(\<exists>r. fst (login env w credentials) = Inr r)
   \<and> (success_payload (fst (login_post env w credentials)) = Some d \<longrightarrow>
        fst (login env w credentials) =
          Inr \<lparr>auth_success = True, auth_user = Some (user d), auth_token = Some (token d),
                auth_message = Some ''Login successful'', auth_errors = None\<rparr>
        \<and> localStorage (snd (login env w credentials)) TOKEN_KEY = Some (token d)
        \<and> localStorage (snd (login env w credentials)) USER_KEY
            = Some (JSON_stringify env (JObj (user d)))
        \<and> localStorage (snd (login env w credentials)) REFRESH_TOKEN_KEY
            = (if truthy_str (refreshToken d) then refreshToken d
               else localStorage w REFRESH_TOKEN_KEY)
        \<and> (token d \<noteq> [] \<and> JSON_stringify env (JObj (user d)) \<noteq> []
             \<and> JSON_parse env (JSON_stringify env (JObj (user d))) = Inr (JObj (user d)) \<longrightarrow>
             isAuthenticated env (snd (login env w credentials)) = Inr True))
   \<and> (success_payload (fst (login_post env w credentials)) = None \<longrightarrow>
        (\<exists>m es. fst (login env w credentials) = Inr (auth_failure m es))
        \<and> localStorage (snd (login env w credentials)) = localStorage w)"
proof (intro conjI impI)
  show "\<exists>r. fst (login env w credentials) = Inr r"
  proof (cases "success_payload (fst (login_post env w credentials))")
    case None
    from login_failure(1) [OF None] show ?thesis by blast
  next
    case (Some d')
    from login_success [OF Some] show ?thesis by simp
  qed
next
  assume s: "success_payload (fst (login_post env w credentials)) = Some d"
  note r = login_success [OF s]
  have st: "localStorage (snd (login_post env w credentials)) = localStorage w"
    by (simp add: login_post_def)
  show "fst (login env w credentials) =
          Inr \<lparr>auth_success = True, auth_user = Some (user d), auth_token = Some (token d),
                auth_message = Some ''Login successful'', auth_errors = None\<rparr>"
    by (simp add: r)
  show "localStorage (snd (login env w credentials)) TOKEN_KEY = Some (token d)"
    by (simp add: r setAuthData_storage)
  show "localStorage (snd (login env w credentials)) USER_KEY
            = Some (JSON_stringify env (JObj (user d)))"
    by (simp add: r setAuthData_storage)
  show "localStorage (snd (login env w credentials)) REFRESH_TOKEN_KEY
            = (if truthy_str (refreshToken d) then refreshToken d
               else localStorage w REFRESH_TOKEN_KEY)"
    by (simp add: r setAuthData_storage st)
  assume "token d \<noteq> [] \<and> JSON_stringify env (JObj (user d)) \<noteq> []
             \<and> JSON_parse env (JSON_stringify env (JObj (user d))) = Inr (JObj (user d))"
  then show "isAuthenticated env (snd (login env w credentials)) = Inr True"
    by (simp add: r isAuthenticated_def getStoredUser_def getToken_def setAuthData_storage)
next
  assume n: "success_payload (fst (login_post env w credentials)) = None"
  from login_failure [OF n]
  show "\<exists>m es. fst (login env w credentials) = Inr (auth_failure m es)"
    and "localStorage (snd (login env w credentials)) = localStorage w"
    by blast+
qed

theorem login_structured_witness:
  "fst (login (login_backend ''T1'' (Some ''R1'')) signed_out sample_credentials) =
      Inr \<lparr>auth_success = True, auth_user = Some sample_user, auth_token = Some ''T1'',
            auth_message = Some ''Login successful'', auth_errors = None\<rparr>
   \<and> localStorage (snd (login (login_backend ''T1'' (Some ''R1'')) signed_out sample_credentials))
        TOKEN_KEY = Some ''T1''
   \<and> localStorage (snd (login (login_backend ''T1'' (Some ''R1'')) signed_out sample_credentials))
        REFRESH_TOKEN_KEY = Some ''R1''
   \<and> isAuthenticated (login_backend ''T1'' (Some ''R1''))
        (snd (login (login_backend ''T1'' (Some ''R1'')) signed_out sample_credentials)) = Inr True
   \<and> localStorage (snd (login refusing_backend signed_in sample_credentials))
        = localStorage signed_in"
proof -
  let ?d = "\<lparr>token = ''T1'', refreshToken = Some ''R1'', user = sample_user\<rparr>"
  have codec: "token ?d \<noteq> [] \<and> JSON_stringify (login_backend ''T1'' (Some ''R1'')) (JObj (user ?d)) \<noteq> []
      \<and> JSON_parse (login_backend ''T1'' (Some ''R1'')) (JSON_stringify (login_backend ''T1'' (Some ''R1'')) (JObj (user ?d)))
          = Inr (JObj (user ?d))"
    using sample_codec by (simp add: login_backend_def)
  from login_structured [of "login_backend ''T1'' (Some ''R1'')" signed_out sample_credentials ?d]
    login_backend_payload [of "''T1''" "Some ''R1''" signed_out sample_credentials] codec
  have a: "fst (login (login_backend ''T1'' (Some ''R1'')) signed_out sample_credentials) =
      Inr \<lparr>auth_success = True, auth_user = Some sample_user, auth_token = Some ''T1'',
            auth_message = Some ''Login successful'', auth_errors = None\<rparr>
   \<and> localStorage (snd (login (login_backend ''T1'' (Some ''R1'')) signed_out sample_credentials))
        TOKEN_KEY = Some ''T1''
   \<and> localStorage (snd (login (login_backend ''T1'' (Some ''R1'')) signed_out sample_credentials))
        REFRESH_TOKEN_KEY = Some ''R1''
   \<and> isAuthenticated (login_backend ''T1'' (Some ''R1''))
        (snd (login (login_backend ''T1'' (Some ''R1'')) signed_out sample_credentials)) = Inr True"
    by simp
  from login_structured [of refusing_backend signed_in sample_credentials ?d]
    refusing_backend_payload [of signed_in sample_credentials]
  have b: "localStorage (snd (login refusing_backend signed_in sample_credentials))
        = localStorage signed_in"
    by simp
  from a b show ?thesis by simp
qed

lemma login_backend_codec [simp]:
  "JSON_stringify (login_backend t r) = json_text" "JSON_parse (login_backend t r) = sample_parse"
  by (simp_all add: login_backend_def)

text \<open>
  A success envelope whose token is the empty string: \<open>login\<close> reports success and stores
  the empty token, and \<open>isAuthenticated\<close> is false afterwards.
\<close>

theorem login_empty_token_counterexample:
  "fst (login (login_backend [] None) signed_out sample_credentials) =
      Inr \<lparr>auth_success = True, auth_user = Some sample_user, auth_token = Some [],
            auth_message = Some ''Login successful'', auth_errors = None\<rparr>
   \<and> isAuthenticated (login_backend [] None)
        (snd (login (login_backend [] None) signed_out sample_credentials)) = Inr False"
proof -
  have r: "login (login_backend [] None) signed_out sample_credentials =
     (Inr \<lparr>auth_success = True, auth_user = Some sample_user, auth_token = Some [],
           auth_message = Some ''Login successful'', auth_errors = None\<rparr>,
      setAuthData (login_backend [] None)
        (snd (login_post (login_backend [] None) signed_out sample_credentials))
        sample_user [] None)"
    using login_success [OF login_backend_payload, of "[]" None signed_out sample_credentials]
    by simp
  show ?thesis
    using sample_codec
    by (simp add: r isAuthenticated_def getStoredUser_def getToken_def setAuthData_storage)
qed

subsection \<open>logout\<close>

lemma storage_keys_distinct [simp]:
  "TOKEN_KEY \<noteq> USER_KEY" "USER_KEY \<noteq> TOKEN_KEY"
  "TOKEN_KEY \<noteq> REFRESH_TOKEN_KEY" "REFRESH_TOKEN_KEY \<noteq> TOKEN_KEY"
  "USER_KEY \<noteq> REFRESH_TOKEN_KEY" "REFRESH_TOKEN_KEY \<noteq> USER_KEY"
  by (simp_all add: TOKEN_KEY_def USER_KEY_def REFRESH_TOKEN_KEY_def)

lemma logout_post_world:
  "snd (logout_post env w) =
     w\<lparr>fetch_log := fetch_log w
          @ [(buildUrl env ''/auth/logout'' None, requestConfig env w logout_options)]\<rparr>"
  by (simp add: logout_post_def post_world logout_options_def no_options_def)

lemma logout_try_world:
  "snd (logout_try env w) = (if truthy_str (getToken w) then snd (logout_post env w) else w)"
  by (simp add: logout_try_def Let_def split: prod.splits sum.splits)

lemma logout_try_result:
  "fst (logout_try env w) =
     (if truthy_str (getToken w)
      then (case fst (logout_post env w) of Inl e \<Rightarrow> Inl e | Inr r \<Rightarrow> Inr ())
      else Inr ())"
  by (simp add: logout_try_def Let_def split: prod.splits sum.splits)

lemma logout_result: "fst (logout env w) = Inr ()"
  by (simp add: logout_def split: prod.splits sum.splits)

lemma logout_world:
  "snd (logout env w) =
     clearAuthData
       (case fst (logout_try env w) of
          Inr u \<Rightarrow> snd (logout_try env w)
        | Inl error \<Rightarrow> log_error ''Logout error:'' error (snd (logout_try env w)))"
  by (simp add: logout_def split: prod.splits sum.splits)

lemma logout_storage:
  "localStorage (snd (logout env w)) =
     (localStorage w)(TOKEN_KEY := None, USER_KEY := None, REFRESH_TOKEN_KEY := None)"
  by (simp add: logout_world logout_try_world logout_post_world clearAuthData_def log_error_def
      split: sum.splits)

lemma logout_fetch_log:
  "fetch_log (snd (logout env w)) =
     (if truthy_str (getToken w)
      then fetch_log w @ [(buildUrl env ''/auth/logout'' None, requestConfig env w logout_options)]
      else fetch_log w)"
  by (simp add: logout_world logout_try_world logout_post_world clearAuthData_def log_error_def
      split: sum.splits)

lemma logout_console:
  "console_error (snd (logout env w)) =
     (case fst (logout_try env w) of
        Inr u \<Rightarrow> console_error w
      | Inl error \<Rightarrow> console_error w @ [(''Logout error:'', error)])"
  by (simp add: logout_world logout_try_world logout_post_world clearAuthData_def log_error_def
      split: sum.splits)

lemma logout_config:
  "init_method (requestConfig env w logout_options) = POST"
  "init_body (requestConfig env w logout_options) = Some (SentText (JSON_stringify env (JObj [])))"
  "getToken w = Some t \<Longrightarrow> t \<noteq> [] \<Longrightarrow>
     init_headers (requestConfig env w logout_options) ''Authorization'' = Some (''Bearer '' @ t)"
  by (simp_all add: requestConfig_def logout_options_def no_options_def Let_def prepareHeaders_def
      getAuthHeaders_def)

text \<open>
  C5, as the code has it. \<open>logout\<close> never throws and always removes the token, user and
  refresh-token keys. When a non-empty token is stored it first makes one POST to the
  logout endpoint, carrying the token as the bearer; an error of that call is caught and
  logged, and the keys are removed all the same. When no token is stored, or the stored
  token is the empty string, no request is made.
\<close>

theorem logout_clears:
  "fst (logout env w) = Inr ()
   \<and> localStorage (snd (logout env w)) TOKEN_KEY = None
   \<and> localStorage (snd (logout env w)) USER_KEY = None
   \<and> localStorage (snd (logout env w)) REFRESH_TOKEN_KEY = None
   \<and> (getToken w = Some t \<and> t \<noteq> [] \<longrightarrow>
        fetch_log (snd (logout env w)) =
          fetch_log w @ [(buildUrl env ''/auth/logout'' None, requestConfig env w logout_options)]
        \<and> init_method (requestConfig env w logout_options) = POST
        \<and> init_headers (requestConfig env w logout_options) ''Authorization''
            = Some (''Bearer '' @ t))
   \<and> (getToken w = Some t \<and> t \<noteq> [] \<and> fst (logout_post env w) = Inl e \<longrightarrow>
        console_error (snd (logout env w)) = console_error w @ [(''Logout error:'', e)])
   \<and> (getToken w = None \<or> getToken w = Some [] \<longrightarrow>
        fetch_log (snd (logout env w)) = fetch_log w)"
  by (auto simp: logout_result logout_storage logout_fetch_log logout_console logout_try_result
      logout_config)

theorem logout_clears_witness:
  "fst (logout (refusing_backend :: unit env) signed_in) = Inr ()
   \<and> localStorage (snd (logout (refusing_backend :: unit env) signed_in)) TOKEN_KEY = None
   \<and> localStorage (snd (logout (refusing_backend :: unit env) signed_in)) USER_KEY = None
   \<and> localStorage (snd (logout (refusing_backend :: unit env) signed_in)) REFRESH_TOKEN_KEY = None
   \<and> map fst (fetch_log (snd (logout (refusing_backend :: unit env) signed_in)))
        = [''http://localhost:8000/api/auth/logout'']
   \<and> console_error (snd (logout (refusing_backend :: unit env) signed_in))
        = [(''Logout error:'', ApiError ''Invalid credentials'' 401 None)]
   \<and> fetch_log (snd (logout (refusing_backend :: unit env) signed_out)) = []"
proof -
  have t: "getToken signed_in = Some ''T0'' \<and> ''T0'' \<noteq> []"
    by (simp add: getToken_def signed_in_def stored_def)
  have e: "fst (logout_post (refusing_backend :: unit env) signed_in)
             = Inl (ApiError ''Invalid credentials'' 401 None)"
    by (simp add: logout_post_def refusing_backend_def post_def request_def Let_def race_def
        platform_def responds_def processResponse_def ok_def defaultTimeout_def no_options_def
        envelope_failed_def or_else_def)
  have u: "buildUrl (refusing_backend :: unit env) ''/auth/logout'' None
             = ''http://localhost:8000/api/auth/logout''"
    by (simp add: buildUrl_def refusing_backend_def platform_def strip_trailing_slash_def
        startsWith_def)
  have n: "getToken signed_out = None"
    by (simp add: getToken_def signed_out_def stored_def)
  from logout_clears [of "refusing_backend :: unit env" signed_in "''T0''"
      "ApiError ''Invalid credentials'' 401 None"] t e u
  have "fst (logout (refusing_backend :: unit env) signed_in) = Inr ()
   \<and> localStorage (snd (logout (refusing_backend :: unit env) signed_in)) TOKEN_KEY = None
   \<and> localStorage (snd (logout (refusing_backend :: unit env) signed_in)) USER_KEY = None
   \<and> localStorage (snd (logout (refusing_backend :: unit env) signed_in)) REFRESH_TOKEN_KEY = None
   \<and> map fst (fetch_log (snd (logout (refusing_backend :: unit env) signed_in)))
        = [''http://localhost:8000/api/auth/logout'']
   \<and> console_error (snd (logout (refusing_backend :: unit env) signed_in))
        = [(''Logout error:'', ApiError ''Invalid credentials'' 401 None)]"
    by (simp add: signed_in_def stored_def)
  moreover from logout_clears [of "refusing_backend :: unit env" signed_out "[]" ThrownUndefined] n
  have "fetch_log (snd (logout (refusing_backend :: unit env) signed_out)) = []"
    by (simp add: signed_out_def stored_def)
  ultimately show ?thesis by simp
qed

text \<open>
  With the empty string stored under the token key, a token entry is stored and
  \<open>logout\<close> makes no request.
\<close>

theorem logout_empty_token_counterexample:
  "getToken empty_token_stored = Some []
   \<and> fetch_log (snd (logout (refusing_backend :: unit env) empty_token_stored)) = []"
  by (simp add: logout_fetch_log getToken_def empty_token_stored_def stored_def)

subsection \<open>Request headers\<close>

lemma prepareHeaders_public_eq:
  "requireAuth options = Some False \<Longrightarrow>
     prepareHeaders w options = default_headers ++ caller_headers options"
  by (simp add: prepareHeaders_def)

lemma default_headers_Authorization [simp]: "default_headers ''Authorization'' = None"
  by (simp add: default_headers_def)

lemma requestConfig_headers:
  "init_headers (requestConfig env w options) =
     (case headers options of
        Some h \<Rightarrow> h
      | None \<Rightarrow>
          if body_truthy (body options) \<and> req_method options \<noteq> None
             \<and> req_method options \<noteq> Some GET \<and> is_FormData (body options)
          then (prepareHeaders w options)(''Content-Type'' := None)
          else prepareHeaders w options)"
  by (auto simp: requestConfig_def Let_def split: option.splits)

lemma merged_Authorization:
  "(default_headers ++ h) ''Authorization'' = h ''Authorization''"
  by (simp add: map_add_def split: option.splits)

lemma public_Authorization:
  assumes "requireAuth options = Some False"
  shows "prepareHeaders w options ''Authorization'' = caller_headers options ''Authorization''"
  by (simp add: prepareHeaders_public_eq [OF assms] merged_Authorization)

lemma public_sent_eq:
  assumes "requireAuth options = Some False"
  shows "init_headers (requestConfig env w1 options) = init_headers (requestConfig env w2 options)"
  by (simp only: requestConfig_headers prepareHeaders_public_eq [OF assms])

lemma public_sent_Authorization:
  assumes "requireAuth options = Some False"
  shows "init_headers (requestConfig env w options) ''Authorization''
           = caller_headers options ''Authorization''"
proof (cases "headers options")
  case None
  then show ?thesis
    by (simp add: requestConfig_headers public_Authorization [OF assms])
next
  case (Some h)
  then show ?thesis
    by (simp add: requestConfig_headers caller_headers_def)
qed

text \<open>
  Headers given by the caller replace the prepared header set in the request that is
  sent: the rest spread puts \<^verbatim>\<open>options.headers\<close> over it.
\<close>

lemma requestConfig_caller_headers_only:
  "headers options = Some h \<Longrightarrow> init_headers (requestConfig env w options) = h"
  by (simp add: requestConfig_headers)

text \<open>
  C6. With \<^verbatim>\<open>requireAuth\<close> explicitly false the client adds no Authorization header:
  whatever the two stores hold, \<open>prepareHeaders\<close> gives the same header set for the same
  caller-supplied headers, namely the defaults merged with the caller's headers, and an
  Authorization entry in it is the caller's own. The same holds for the headers of the
  request that is sent.
\<close>

theorem prepareHeaders_public:
  "requireAuth o1 = Some False \<and> requireAuth o2 = Some False \<and> headers o1 = headers o2 \<longrightarrow>
     prepareHeaders w1 o1 = prepareHeaders w2 o2
     \<and> prepareHeaders w1 o1 = default_headers ++ caller_headers o1
     \<and> (prepareHeaders w1 o1 ''Authorization'' = Some v \<longrightarrow>
          caller_headers o1 ''Authorization'' = Some v)
     \<and> init_headers (requestConfig env w1 o1) = init_headers (requestConfig env w2 o1)
     \<and> (init_headers (requestConfig env w1 o1) ''Authorization'' = Some v \<longrightarrow>
          caller_headers o1 ''Authorization'' = Some v)"
proof (intro impI conjI)
  assume a: "requireAuth o1 = Some False \<and> requireAuth o2 = Some False \<and> headers o1 = headers o2"
  then have r1: "requireAuth o1 = Some False" and r2: "requireAuth o2 = Some False"
    and c: "caller_headers o1 = caller_headers o2"
    by (simp_all add: caller_headers_def)
  show "prepareHeaders w1 o1 = prepareHeaders w2 o2"
    by (simp only: prepareHeaders_public_eq [OF r1] prepareHeaders_public_eq [OF r2] c)
  show "prepareHeaders w1 o1 = default_headers ++ caller_headers o1"
    by (rule prepareHeaders_public_eq [OF r1])
  show "init_headers (requestConfig env w1 o1) = init_headers (requestConfig env w2 o1)"
    by (rule public_sent_eq [OF r1])
  {
    assume "prepareHeaders w1 o1 ''Authorization'' = Some v"
    then show "caller_headers o1 ''Authorization'' = Some v"
      by (simp only: public_Authorization [OF r1])
  }
  {
    assume "init_headers (requestConfig env w1 o1) ''Authorization'' = Some v"
    then show "caller_headers o1 ''Authorization'' = Some v"
      by (simp only: public_sent_Authorization [OF r1])
  }
qed

lemma getAuthHeaders_signed_in: "getAuthHeaders signed_in = [''Authorization'' \<mapsto> ''Bearer T0'']"
  by (simp add: getAuthHeaders_def getToken_def signed_in_def stored_def)

lemma getAuthHeaders_signed_out: "getAuthHeaders signed_out = Map.empty"
  by (simp add: getAuthHeaders_def getToken_def signed_out_def stored_def)

lemma public_options_fields:
  "requireAuth public_options = Some False" "headers public_options = None"
  "caller_headers public_options = Map.empty"
  by (simp_all add: public_options_def no_options_def caller_headers_def)

theorem prepareHeaders_public_witness:
  "prepareHeaders signed_in public_options = prepareHeaders signed_out public_options
   \<and> prepareHeaders signed_in public_options = default_headers
   \<and> init_headers (requestConfig (refusing_backend :: unit env) signed_in public_options)
       = init_headers (requestConfig (refusing_backend :: unit env) signed_out public_options)"
proof -
  have h: "requireAuth public_options = Some False \<and> requireAuth public_options = Some False
      \<and> headers public_options = headers public_options"
    by (simp add: public_options_fields)
  note t = prepareHeaders_public
    [of public_options public_options signed_in signed_out "[]" "refusing_backend :: unit env",
     rule_format, OF h]
  have cc: "default_headers ++ caller_headers public_options = default_headers"
    by (simp add: public_options_fields)
  show ?thesis
  proof (intro conjI)
    show "prepareHeaders signed_in public_options = prepareHeaders signed_out public_options"
      by (rule t [THEN conjunct1])
    show "prepareHeaders signed_in public_options = default_headers"
      by (rule trans [OF t [THEN conjunct2, THEN conjunct1] cc])
    show "init_headers (requestConfig (refusing_backend :: unit env) signed_in public_options)
       = init_headers (requestConfig (refusing_backend :: unit env) signed_out public_options)"
      by (rule t [THEN conjunct2, THEN conjunct2, THEN conjunct2, THEN conjunct1])
  qed
qed

lemma prepareHeaders_eq:
  "prepareHeaders w options =
     (if requireAuth options = Some False then default_headers ++ caller_headers options
      else default_headers ++ caller_headers options ++ getAuthHeaders w)"
  by (simp add: prepareHeaders_def)

lemma getAuthHeaders_other: "k \<noteq> ''Authorization'' \<Longrightarrow> getAuthHeaders w k = None"
  by (simp add: getAuthHeaders_def split: option.splits)

lemma getAuthHeaders_no_token: "getToken w = None \<Longrightarrow> getAuthHeaders w k = None"
  by (simp add: getAuthHeaders_def)

lemma prepareHeaders_caller_wins:
  assumes "caller_headers options k = Some v"
    and "requireAuth options = Some False \<or> k \<noteq> ''Authorization'' \<or> getToken w = None"
  shows "prepareHeaders w options k = Some v"
proof (cases "requireAuth options = Some False")
  case True
  with assms(1) show ?thesis
    by (simp add: prepareHeaders_eq map_add_def)
next
  case False
  with assms(2) have "getAuthHeaders w k = None"
    using getAuthHeaders_other getAuthHeaders_no_token by blast
  with False assms(1) show ?thesis
    by (simp add: prepareHeaders_eq map_add_def)
qed

lemma prepareHeaders_default_kept:
  assumes "caller_headers options k = None" and "k \<noteq> ''Authorization''"
  shows "prepareHeaders w options k = default_headers k"
  using assms getAuthHeaders_other [OF assms(2), of w]
  by (simp add: prepareHeaders_eq map_add_def)

lemma requestConfig_headers_none:
  assumes "headers options = None"
  shows "init_headers (requestConfig env w options) =
          (if body_truthy (body options) \<and> req_method options \<noteq> None
              \<and> req_method options \<noteq> Some GET \<and> is_FormData (body options)
           then (prepareHeaders w options)(''Content-Type'' := None)
           else prepareHeaders w options)"
  by (simp only: requestConfig_headers assms option.case)

text \<open>
  What \<open>prepareHeaders\<close> computes: the defaults \<^verbatim>\<open>Content-Type: application/json\<close> and
  \<^verbatim>\<open>Accept: application/json\<close> merged with the caller-supplied headers, the caller's value
  winning on every conflict, and, unless \<^verbatim>\<open>requireAuth\<close> is false, overlaid with the
  Authorization header of a stored token. For a request configuration without a
  \<^verbatim>\<open>headers\<close> option the header set sent is this set, with \<^verbatim>\<open>Content-Type\<close> removed when a
  \<^verbatim>\<open>FormData\<close> body is sent.
\<close>

theorem prepareHeaders_merge:
  "prepareHeaders w options =
     (if requireAuth options = Some False then default_headers ++ caller_headers options
      else default_headers ++ caller_headers options ++ getAuthHeaders w)
   \<and> (caller_headers options k = Some v
        \<and> (requireAuth options = Some False \<or> k \<noteq> ''Authorization'' \<or> getToken w = None) \<longrightarrow>
        prepareHeaders w options k = Some v)
   \<and> (caller_headers options k = None \<and> k \<noteq> ''Authorization'' \<longrightarrow>
        prepareHeaders w options k = default_headers k)
   \<and> (headers options = None \<longrightarrow>
        init_headers (requestConfig env w options) =
          (if body_truthy (body options) \<and> req_method options \<noteq> None
              \<and> req_method options \<noteq> Some GET \<and> is_FormData (body options)
           then (prepareHeaders w options)(''Content-Type'' := None)
           else prepareHeaders w options))"
proof (intro conjI impI)
  show "prepareHeaders w options =
     (if requireAuth options = Some False then default_headers ++ caller_headers options
      else default_headers ++ caller_headers options ++ getAuthHeaders w)"
    by (rule prepareHeaders_eq)
next
  assume "caller_headers options k = Some v
        \<and> (requireAuth options = Some False \<or> k \<noteq> ''Authorization'' \<or> getToken w = None)"
  then show "prepareHeaders w options k = Some v"
    using prepareHeaders_caller_wins by blast
next
  assume "caller_headers options k = None \<and> k \<noteq> ''Authorization''"
  then show "prepareHeaders w options k = default_headers k"
    using prepareHeaders_default_kept by blast
next
  assume "headers options = None"
  then show "init_headers (requestConfig env w options) =
          (if body_truthy (body options) \<and> req_method options \<noteq> None
              \<and> req_method options \<noteq> Some GET \<and> is_FormData (body options)
           then (prepareHeaders w options)(''Content-Type'' := None)
           else prepareHeaders w options)"
    by (rule requestConfig_headers_none)
qed

lemma custom_header_options_fields:
  "requireAuth custom_header_options = Some False"
  "caller_headers custom_header_options ''Accept'' = Some ''text/csv''"
  "caller_headers custom_header_options ''X-Trace'' = Some ''1''"
  "caller_headers custom_header_options ''Content-Type'' = None"
  by (simp_all add: caller_headers_def custom_header_options_def no_options_def)

lemma upload_options_fields:
  "headers upload_options = None" "body_truthy (body upload_options)"
  "req_method upload_options = Some POST" "is_FormData (body upload_options)"
  "requireAuth upload_options = None" "caller_headers upload_options = Map.empty"
  by (simp_all add: upload_options_def no_options_def caller_headers_def)

theorem prepareHeaders_merge_witness:
  "prepareHeaders signed_in custom_header_options ''Accept'' = Some ''text/csv''
   \<and> prepareHeaders signed_in custom_header_options ''X-Trace'' = Some ''1''
   \<and> prepareHeaders signed_in custom_header_options ''Content-Type'' = Some ''application/json''
   \<and> init_headers (requestConfig (refusing_backend :: unit env) signed_in upload_options)
        = (prepareHeaders signed_in upload_options)(''Content-Type'' := None)"
proof (intro conjI)
  let ?env = "refusing_backend :: unit env"
  note c = custom_header_options_fields
  show "prepareHeaders signed_in custom_header_options ''Accept'' = Some ''text/csv''"
    by (rule prepareHeaders_merge
        [of signed_in custom_header_options "''Accept''" "''text/csv''" ?env,
          THEN conjunct2, THEN conjunct1, rule_format])
      (simp add: c)
  show "prepareHeaders signed_in custom_header_options ''X-Trace'' = Some ''1''"
    by (rule prepareHeaders_merge
        [of signed_in custom_header_options "''X-Trace''" "''1''" ?env,
          THEN conjunct2, THEN conjunct1, rule_format])
      (simp add: c)
  have "prepareHeaders signed_in custom_header_options ''Content-Type''
      = default_headers ''Content-Type''"
    by (rule prepareHeaders_merge
        [of signed_in custom_header_options "''Content-Type''" "''1''" ?env,
          THEN conjunct2, THEN conjunct2, THEN conjunct1, rule_format])
      (simp add: c)
  also have "default_headers ''Content-Type'' = Some ''application/json''"
    by (simp add: default_headers_def)
  finally show "prepareHeaders signed_in custom_header_options ''Content-Type''
      = Some ''application/json''" .
  have "init_headers (requestConfig ?env signed_in upload_options) =
          (if body_truthy (body upload_options) \<and> req_method upload_options \<noteq> None
              \<and> req_method upload_options \<noteq> Some GET \<and> is_FormData (body upload_options)
           then (prepareHeaders signed_in upload_options)(''Content-Type'' := None)
           else prepareHeaders signed_in upload_options)"
    by (rule prepareHeaders_merge
        [of signed_in upload_options "''Accept''" "''1''" ?env,
          THEN conjunct2, THEN conjunct2, THEN conjunct2, rule_format])
      (rule upload_options_fields)
  also have "\<dots> = (prepareHeaders signed_in upload_options)(''Content-Type'' := None)"
    by (simp only: upload_options_fields) simp
  finally show "init_headers (requestConfig ?env signed_in upload_options)
        = (prepareHeaders signed_in upload_options)(''Content-Type'' := None)" .
qed

lemma no_options_fields:
  "headers no_options = None" "body no_options = None" "req_method no_options = None"
  "requireAuth no_options = None" "caller_headers no_options = Map.empty"
  by (simp_all add: no_options_def caller_headers_def)

text \<open>
  Two deliberate departures from the plain merge in the header set sent: an upload
  (\<^verbatim>\<open>FormData\<close> body) is sent without \<^verbatim>\<open>Content-Type\<close>, and an authenticated request carries
  an Authorization header that is in neither the defaults nor the caller's headers.
\<close>

theorem sent_headers_by_design:
  "(default_headers ++ caller_headers upload_options) ''Content-Type'' = Some ''application/json''
   \<and> init_headers (requestConfig (refusing_backend :: unit env) signed_out upload_options)
        ''Content-Type'' = None
   \<and> init_headers (requestConfig (refusing_backend :: unit env) signed_out upload_options)
        \<noteq> default_headers ++ caller_headers upload_options
   \<and> (default_headers ++ caller_headers no_options) ''Authorization'' = None
   \<and> init_headers (requestConfig (refusing_backend :: unit env) signed_in no_options)
        ''Authorization'' = Some ''Bearer T0''
   \<and> init_headers (requestConfig (refusing_backend :: unit env) signed_in no_options)
        \<noteq> default_headers ++ caller_headers no_options"
proof -
  let ?env = "refusing_backend :: unit env"
  have a: "(default_headers ++ caller_headers upload_options) ''Content-Type''
      = Some ''application/json''"
    by (simp add: default_headers_def upload_options_fields)
  have b: "init_headers (requestConfig ?env signed_out upload_options) ''Content-Type'' = None"
    by (simp add: requestConfig_headers_none upload_options_fields)
  have c: "(default_headers ++ caller_headers no_options) ''Authorization'' = None"
    by (simp add: no_options_fields)
  have d: "init_headers (requestConfig ?env signed_in no_options) ''Authorization''
      = Some ''Bearer T0''"
    by (simp add: requestConfig_headers_none no_options_fields prepareHeaders_eq
        getAuthHeaders_signed_in)
  have e: "init_headers (requestConfig ?env signed_out upload_options)
        \<noteq> default_headers ++ caller_headers upload_options"
  proof
    assume "init_headers (requestConfig ?env signed_out upload_options)
        = default_headers ++ caller_headers upload_options"
    then have "init_headers (requestConfig ?env signed_out upload_options) ''Content-Type''
        = (default_headers ++ caller_headers upload_options) ''Content-Type''"
      by (rule arg_cong)
    then show False
      by (simp only: a b) simp
  qed
  have f: "init_headers (requestConfig ?env signed_in no_options)
        \<noteq> default_headers ++ caller_headers no_options"
  proof
    assume "init_headers (requestConfig ?env signed_in no_options)
        = default_headers ++ caller_headers no_options"
    then have "init_headers (requestConfig ?env signed_in no_options) ''Authorization''
        = (default_headers ++ caller_headers no_options) ''Authorization''"
      by (rule arg_cong)
    then show False
      by (simp only: c d) simp
  qed
  show ?thesis
    by (intro conjI a b c d e f)
qed

text \<open>
  In the request that is sent, every header the caller supplied has the caller's value,
  for every request configuration.
\<close>

lemma sent_caller_wins:
  assumes "caller_headers options k = Some v"
  shows "init_headers (requestConfig env w options) k = Some v"
proof (cases "headers options")
  case None
  with assms show ?thesis
    by (simp add: caller_headers_def)
next
  case (Some h)
  with assms show ?thesis
    by (simp add: requestConfig_caller_headers_only caller_headers_def)
qed

lemma traced_options_fields:
  "headers traced_options = Some [''X-Trace'' \<mapsto> ''1'']"
  "caller_headers traced_options = [''X-Trace'' \<mapsto> ''1'']"
  "requireAuth traced_options = None" "params traced_options = None"
  by (simp_all add: traced_options_def no_options_def caller_headers_def)

text \<open>
  C7. A request whose options carry the header \<^verbatim>\<open>X-Trace: 1\<close>, made with a token stored:
  \<open>prepareHeaders\<close> computes the defaults merged with the caller's header, and the
  Authorization header, but the rest spread of \<^verbatim>\<open>request\<close> puts \<^verbatim>\<open>options.headers\<close> over that
  set, so the request handed to \<^verbatim>\<open>fetch\<close> carries \<^verbatim>\<open>X-Trace\<close> alone: the defaults
  \<^verbatim>\<open>Content-Type\<close> and \<^verbatim>\<open>Accept\<close> are not sent, and the header set sent is not the defaults
  merged with the caller's headers.
\<close>

theorem request_sends_caller_headers_only:
  "prepareHeaders signed_in traced_options ''Content-Type'' = Some ''application/json''
   \<and> prepareHeaders signed_in traced_options ''Accept'' = Some ''application/json''
   \<and> prepareHeaders signed_in traced_options ''X-Trace'' = Some ''1''
   \<and> prepareHeaders signed_in traced_options ''Authorization'' = Some ''Bearer T0''
   \<and> (default_headers ++ caller_headers traced_options) ''Content-Type''
        = Some ''application/json''
   \<and> (default_headers ++ caller_headers traced_options) ''Accept'' = Some ''application/json''
   \<and> fetch_log (snd (request (refusing_backend :: unit env) signed_in ''/user/export''
          traced_options))
        = [(''http://localhost:8000/api/user/export'',
            requestConfig (refusing_backend :: unit env) signed_in traced_options)]
   \<and> init_headers (requestConfig (refusing_backend :: unit env) signed_in traced_options)
        = [''X-Trace'' \<mapsto> ''1'']
   \<and> init_headers (requestConfig (refusing_backend :: unit env) signed_in traced_options)
        ''Content-Type'' = None
   \<and> init_headers (requestConfig (refusing_backend :: unit env) signed_in traced_options)
        ''Accept'' = None
   \<and> init_headers (requestConfig (refusing_backend :: unit env) signed_in traced_options)
        ''Authorization'' = None
   \<and> init_headers (requestConfig (refusing_backend :: unit env) signed_in traced_options)
        \<noteq> default_headers ++ caller_headers traced_options"
proof -
  let ?env = "refusing_backend :: unit env"
  let ?sent = "init_headers (requestConfig ?env signed_in traced_options)"
  have p: "prepareHeaders signed_in traced_options
      = default_headers ++ [''X-Trace'' \<mapsto> ''1''] ++ [''Authorization'' \<mapsto> ''Bearer T0'']"
    by (simp add: prepareHeaders_eq traced_options_fields getAuthHeaders_signed_in)
  have p1: "prepareHeaders signed_in traced_options ''Content-Type'' = Some ''application/json''"
    and p2: "prepareHeaders signed_in traced_options ''Accept'' = Some ''application/json''"
    and p3: "prepareHeaders signed_in traced_options ''X-Trace'' = Some ''1''"
    and p4: "prepareHeaders signed_in traced_options ''Authorization'' = Some ''Bearer T0''"
    by (simp_all add: p default_headers_def)
  have m1: "(default_headers ++ caller_headers traced_options) ''Content-Type''
        = Some ''application/json''"
    and m2: "(default_headers ++ caller_headers traced_options) ''Accept''
        = Some ''application/json''"
    by (simp_all add: traced_options_fields default_headers_def)
  have u: "buildUrl ?env ''/user/export'' None = ''http://localhost:8000/api/user/export''"
    by (simp add: buildUrl_def refusing_backend_def platform_def strip_trailing_slash_def
        startsWith_def)
  have l: "fetch_log (snd (request ?env signed_in ''/user/export'' traced_options))
        = [(''http://localhost:8000/api/user/export'',
            requestConfig ?env signed_in traced_options)]"
    by (simp add: request_world traced_options_fields u signed_in_def stored_def)
  have s: "?sent = [''X-Trace'' \<mapsto> ''1'']"
    by (rule requestConfig_caller_headers_only) (rule traced_options_fields)
  have s1: "?sent ''Content-Type'' = None" and s2: "?sent ''Accept'' = None"
    and s3: "?sent ''Authorization'' = None"
    by (simp_all add: s)
  have ne: "?sent \<noteq> default_headers ++ caller_headers traced_options"
  proof
    assume "?sent = default_headers ++ caller_headers traced_options"
    then have "?sent ''Content-Type'' = (default_headers ++ caller_headers traced_options) ''Content-Type''"
      by (rule arg_cong)
    then show False
      by (simp only: s1 m1) simp
  qed
  show ?thesis
    by (intro conjI p1 p2 p3 p4 m1 m2 l s s1 s2 s3 ne)
qed

subsection \<open>refreshAuthToken\<close>

lemma refresh_post_world:
  "snd (refresh_post env w r) =
     w\<lparr>fetch_log := fetch_log w
          @ [(buildUrl env ''/auth/refresh'' None,
              requestConfig env w
                (no_options\<lparr>requireAuth := Some False, req_method := Some POST,
                   body := Some (Plain (JObj [(''refreshToken'', JStr r)]))\<rparr>))]\<rparr>"
  by (simp add: refresh_post_def post_world no_options_def)

lemma refresh_post_storage [simp]:
  "localStorage (snd (refresh_post env w r)) = localStorage w"
  by (simp add: refresh_post_def)

lemma refresh_after_cases:
  "refresh_after (settled, w1) =
     (case success_payload settled of
        Some d \<Rightarrow>
          (Inr \<lparr>refresh_success = True, refresh_token = Some (token d)\<rparr>,
           w1\<lparr>localStorage :=
                (case refreshToken d of
                   None \<Rightarrow> (localStorage w1)(TOKEN_KEY \<mapsto> token d)
                 | Some x \<Rightarrow>
                     if x \<noteq> []
                     then (localStorage w1)(TOKEN_KEY \<mapsto> token d, REFRESH_TOKEN_KEY \<mapsto> x)
                     else (localStorage w1)(TOKEN_KEY \<mapsto> token d))\<rparr>)
      | None \<Rightarrow>
          (case settled of
             Inl e \<Rightarrow> (Inl e, w1)
           | Inr JsonNull \<Rightarrow> (Inl (Error (null_property_message ''success'')), w1)
           | Inr (JsonEnvelope response) \<Rightarrow> (Inr refresh_failed, w1)))"
  by (auto simp: refresh_after_def success_payload_def Let_def
      split: sum.splits parsed.splits option.splits bool.splits)

lemma refresh_none:
  assumes "getRefreshToken w = None \<or> getRefreshToken w = Some []"
  shows "refreshAuthToken env w = (Inr refresh_failed, w)"
  using assms by (auto simp: refreshAuthToken_def refresh_try_def)

lemma refresh_success:
  assumes "getRefreshToken w = Some r" and "r \<noteq> []"
    and "success_payload (fst (refresh_post env w r)) = Some d"
  shows "refreshAuthToken env w =
     (Inr \<lparr>refresh_success = True, refresh_token = Some (token d)\<rparr>,
      (snd (refresh_post env w r))\<lparr>localStorage :=
         (case refreshToken d of
            None \<Rightarrow> (localStorage w)(TOKEN_KEY \<mapsto> token d)
          | Some x \<Rightarrow>
              if x \<noteq> []
              then (localStorage w)(TOKEN_KEY \<mapsto> token d, REFRESH_TOKEN_KEY \<mapsto> x)
              else (localStorage w)(TOKEN_KEY \<mapsto> token d))\<rparr>)"
proof -
  obtain settled w1 where p: "refresh_post env w r = (settled, w1)"
    by (cases "refresh_post env w r")
  have "localStorage (snd (refresh_post env w r)) = localStorage w"
    by simp
  then have st: "localStorage w1 = localStorage w"
    by (simp add: p)
  from assms(3) have "success_payload settled = Some d"
    by (simp add: p)
  then show ?thesis
    using assms(1,2)
    by (simp add: refreshAuthToken_def refresh_try_def p refresh_after_cases st
        split: option.splits)
qed

lemma refresh_user_untouched:
  "localStorage (snd (refreshAuthToken env w)) USER_KEY = localStorage w USER_KEY"
proof (cases "getRefreshToken w = None \<or> getRefreshToken w = Some []")
  case True
  then show ?thesis by (simp add: refresh_none)
next
  case False
  then obtain r where r: "getRefreshToken w = Some r" "r \<noteq> []"
    by auto
  obtain settled w1 where p: "refresh_post env w r = (settled, w1)"
    by (cases "refresh_post env w r")
  have "localStorage (snd (refresh_post env w r)) = localStorage w"
    by simp
  then have st: "localStorage w1 = localStorage w"
    by (simp add: p)
  show ?thesis
    using r st
    by (auto simp: refreshAuthToken_def refresh_try_def p refresh_after_cases log_error_def
        split: option.splits sum.splits parsed.splits)
qed

lemma refresh_never_throws: "\<exists>res. fst (refreshAuthToken env w) = Inr res"
  by (auto simp: refreshAuthToken_def split: prod.splits sum.splits)

lemma refresh_success_storage:
  assumes "getRefreshToken w = Some r" and "r \<noteq> []"
    and "success_payload (fst (refresh_post env w r)) = Some d"
  shows "localStorage (snd (refreshAuthToken env w)) TOKEN_KEY = Some (token d)"
    and "localStorage (snd (refreshAuthToken env w)) REFRESH_TOKEN_KEY =
           (if truthy_str (refreshToken d) then refreshToken d
            else localStorage w REFRESH_TOKEN_KEY)"
proof -
  note s = refresh_success [OF assms]
  show "localStorage (snd (refreshAuthToken env w)) TOKEN_KEY = Some (token d)"
    by (simp add: s split: option.splits)
  show "localStorage (snd (refreshAuthToken env w)) REFRESH_TOKEN_KEY =
           (if truthy_str (refreshToken d) then refreshToken d
            else localStorage w REFRESH_TOKEN_KEY)"
    by (cases "refreshToken d") (simp_all add: s)
qed

text \<open>
  C8. \<open>refreshAuthToken\<close> returns the failure result and leaves the whole state as it is,
  the list of requests included, when no refresh token is stored. When the exchange
  succeeds it stores the new token under the token key and overwrites the refresh-token
  key only with a new (non-empty) refresh token of the payload; without one the key keeps
  its value. In every outcome the user key is left unchanged and the call does not throw.
\<close>

theorem refreshAuthToken_frame:
  "(getRefreshToken w = None \<longrightarrow> refreshAuthToken env w = (Inr refresh_failed, w))
   \<and> (getRefreshToken w = Some r \<and> r \<noteq> []
        \<and> success_payload (fst (refresh_post env w r)) = Some d \<longrightarrow>
        fst (refreshAuthToken env w) = Inr \<lparr>refresh_success = True, refresh_token = Some (token d)\<rparr>
        \<and> localStorage (snd (refreshAuthToken env w)) TOKEN_KEY = Some (token d)
        \<and> localStorage (snd (refreshAuthToken env w)) REFRESH_TOKEN_KEY =
            (if truthy_str (refreshToken d) then refreshToken d
             else localStorage w REFRESH_TOKEN_KEY)
        \<and> (refreshToken d = None \<longrightarrow>
             localStorage (snd (refreshAuthToken env w)) REFRESH_TOKEN_KEY
               = localStorage w REFRESH_TOKEN_KEY))
   \<and> localStorage (snd (refreshAuthToken env w)) USER_KEY = localStorage w USER_KEY
   \<and> (\<exists>res. fst (refreshAuthToken env w) = Inr res)"
proof (intro conjI impI)
  assume "getRefreshToken w = None"
  then show "refreshAuthToken env w = (Inr refresh_failed, w)"
    by (simp add: refresh_none)
next
  assume a: "getRefreshToken w = Some r \<and> r \<noteq> []
        \<and> success_payload (fst (refresh_post env w r)) = Some d"
  then have a1: "getRefreshToken w = Some r" and a2: "r \<noteq> []"
    and a3: "success_payload (fst (refresh_post env w r)) = Some d"
    by simp_all
  show "fst (refreshAuthToken env w) = Inr \<lparr>refresh_success = True, refresh_token = Some (token d)\<rparr>"
    by (simp add: refresh_success [OF a1 a2 a3])
  show "localStorage (snd (refreshAuthToken env w)) TOKEN_KEY = Some (token d)"
    by (rule refresh_success_storage(1) [OF a1 a2 a3])
  show k: "localStorage (snd (refreshAuthToken env w)) REFRESH_TOKEN_KEY =
            (if truthy_str (refreshToken d) then refreshToken d
             else localStorage w REFRESH_TOKEN_KEY)"
    by (rule refresh_success_storage(2) [OF a1 a2 a3])
  assume "refreshToken d = None"
  then show "localStorage (snd (refreshAuthToken env w)) REFRESH_TOKEN_KEY
               = localStorage w REFRESH_TOKEN_KEY"
    by (simp add: k)
next
  show "localStorage (snd (refreshAuthToken env w)) USER_KEY = localStorage w USER_KEY"
    by (rule refresh_user_untouched)
next
  show "\<exists>res. fst (refreshAuthToken env w) = Inr res"
    by (rule refresh_never_throws)
qed

lemma refresh_backend_payload:
  "success_payload (fst (refresh_post (refresh_backend t r) w x))
     = Some \<lparr>token = t, refreshToken = r\<rparr>"
  by (simp add: refresh_post_def refresh_backend_def run_request)

lemma signed_in_storage:
  "getToken signed_in = Some ''T0''" "getRefreshToken signed_in = Some ''R0''"
  "localStorage signed_in USER_KEY = Some (json_text (JObj sample_user))"
  by (simp_all add: getToken_def getRefreshToken_def signed_in_def stored_def)

lemma signed_out_storage:
  "getToken signed_out = None" "getRefreshToken signed_out = None"
  "localStorage signed_out = Map.empty"
  by (simp_all add: getToken_def getRefreshToken_def signed_out_def stored_def)

theorem refreshAuthToken_frame_witness:
  "refreshAuthToken (refresh_backend ''T2'' (Some ''R2'')) signed_out
      = (Inr refresh_failed, signed_out)
   \<and> fst (refreshAuthToken (refresh_backend ''T2'' (Some ''R2'')) signed_in)
      = Inr \<lparr>refresh_success = True, refresh_token = Some ''T2''\<rparr>
   \<and> localStorage (snd (refreshAuthToken (refresh_backend ''T2'' (Some ''R2'')) signed_in))
        TOKEN_KEY = Some ''T2''
   \<and> localStorage (snd (refreshAuthToken (refresh_backend ''T2'' (Some ''R2'')) signed_in))
        REFRESH_TOKEN_KEY = Some ''R2''
   \<and> localStorage (snd (refreshAuthToken (refresh_backend ''T2'' None) signed_in))
        REFRESH_TOKEN_KEY = Some ''R0''
   \<and> localStorage (snd (refreshAuthToken (refresh_backend ''T2'' (Some ''R2'')) signed_in))
        USER_KEY = Some (json_text (JObj sample_user))"
proof -
  let ?e = "refresh_backend ''T2'' (Some ''R2'')"
  let ?d = "\<lparr>token = ''T2'', refreshToken = Some ''R2''\<rparr>"
  let ?e' = "refresh_backend ''T2'' None"
  let ?d' = "\<lparr>token = ''T2'', refreshToken = None\<rparr>"
  have h: "getRefreshToken signed_in = Some ''R0'' \<and> ''R0'' \<noteq> []
        \<and> success_payload (fst (refresh_post ?e signed_in ''R0'')) = Some ?d"
    by (simp add: signed_in_storage refresh_backend_payload)
  have h': "getRefreshToken signed_in = Some ''R0'' \<and> ''R0'' \<noteq> []
        \<and> success_payload (fst (refresh_post ?e' signed_in ''R0'')) = Some ?d'"
    by (simp add: signed_in_storage refresh_backend_payload)
  note t0 = refreshAuthToken_frame [of signed_out ?e "''R0''" ?d]
  note t1 = refreshAuthToken_frame [of signed_in ?e "''R0''" ?d]
  note t2 = refreshAuthToken_frame [of signed_in ?e' "''R0''" ?d']
  note s1 = t1 [THEN conjunct2, THEN conjunct1, rule_format, OF h]
  note s2 = t2 [THEN conjunct2, THEN conjunct1, rule_format, OF h']
  show ?thesis
  proof (intro conjI)
    show "refreshAuthToken ?e signed_out = (Inr refresh_failed, signed_out)"
      by (rule t0 [THEN conjunct1, rule_format]) (rule signed_out_storage)
    show "fst (refreshAuthToken ?e signed_in)
        = Inr \<lparr>refresh_success = True, refresh_token = Some ''T2''\<rparr>"
      using s1 [THEN conjunct1] by simp
    show "localStorage (snd (refreshAuthToken ?e signed_in)) TOKEN_KEY = Some ''T2''"
      using s1 [THEN conjunct2, THEN conjunct1] by simp
    show "localStorage (snd (refreshAuthToken ?e signed_in)) REFRESH_TOKEN_KEY = Some ''R2''"
      using s1 [THEN conjunct2, THEN conjunct2, THEN conjunct1] by simp
    show "localStorage (snd (refreshAuthToken ?e' signed_in)) REFRESH_TOKEN_KEY = Some ''R0''"
      using s2 [THEN conjunct2, THEN conjunct2, THEN conjunct1] signed_in_storage(2)
      by (simp add: getRefreshToken_def)
    show "localStorage (snd (refreshAuthToken ?e signed_in)) USER_KEY
        = Some (json_text (JObj sample_user))"
      using t1 [THEN conjunct2, THEN conjunct2, THEN conjunct1] signed_in_storage(3)
      by (simp only:)
  qed
qed

subsection \<open>signup and the signup form\<close>

lemma signupData_eq:
  "object_rest ''confirmPassword'' (SignupCredentials_json c) =
     JObj [(''email'', JStr (email c)), (''password'', JStr (password c)),
           (''firstName'', JStr (firstName c)), (''lastName'', JStr (lastName c))]"
  by (simp add: SignupCredentials_json_def)

lemma signup_requestConfig:
  "requestConfig env w
     (no_options\<lparr>requireAuth := Some False, req_method := Some POST, body := Some (Plain (JObj kvs))\<rparr>)
   = \<lparr>init_method = POST, init_headers = default_headers, init_requireAuth = Some False,
      init_body = Some (SentText (JSON_stringify env (JObj kvs)))\<rparr>"
  by (simp add: requestConfig_def Let_def no_options_def prepareHeaders_def caller_headers_def)

lemma signup_post_world:
  "snd (signup_post env w c) =
     w\<lparr>fetch_log := fetch_log w
          @ [(buildUrl env ''/auth/signup'' None,
              \<lparr>init_method = POST, init_headers = default_headers, init_requireAuth = Some False,
               init_body = Some (SentText (JSON_stringify env
                 (JObj [(''email'', JStr (email c)), (''password'', JStr (password c)),
                        (''firstName'', JStr (firstName c)), (''lastName'', JStr (lastName c))])))\<rparr>)]\<rparr>"
proof -
  have "params (no_options\<lparr>requireAuth := Some False\<rparr>) = None"
    by (simp add: no_options_def)
  then show ?thesis
    by (simp add: signup_post_def Let_def signupData_eq post_world signup_requestConfig)
qed

lemma setAuthData_fetch_log [simp]: "fetch_log (setAuthData env w u t r) = fetch_log w"
  by (simp add: setAuthData_def Let_def)

lemma log_error_fetch_log [simp]: "fetch_log (log_error l e w) = fetch_log w"
  by (simp add: log_error_def)

lemma signup_after_fetch_log:
  "fetch_log (snd (signup_after env (settled, w1))) = fetch_log w1"
  by (auto simp: signup_after_def split: sum.splits parsed.splits option.splits bool.splits)

lemma signup_fetch_log:
  "fetch_log (snd (signup env w c)) = fetch_log (snd (signup_post env w c))"
proof -
  obtain settled w1 where p: "signup_post env w c = (settled, w1)"
    by (cases "signup_post env w c")
  obtain res w2 where q: "signup_after env (settled, w1) = (res, w2)"
    by (cases "signup_after env (settled, w1)")
  have "fetch_log w2 = fetch_log w1"
    using signup_after_fetch_log [of env settled w1] by (simp add: q)
  then show ?thesis
    by (cases res) (simp_all add: signup_def p q)
qed

lemma signup_post_ignores_confirmPassword:
  "signup_post env w (c\<lparr>confirmPassword := x\<rparr>) = signup_post env w c"
  by (simp add: signup_post_def signupData_eq)

text \<open>
  C9. The \<^verbatim>\<open>confirmPassword\<close> value never reaches the network. \<open>signup\<close> makes one request,
  a POST to /auth/signup whose body is the JSON text of the credentials without the
  \<^verbatim>\<open>confirmPassword\<close> property; credentials that differ only in \<^verbatim>\<open>confirmPassword\<close> give
  the same request and the same result. Submitting the form with a password and a
  \<^verbatim>\<open>confirmPassword\<close> that differ fails validation and leaves the state, the list of
  requests included, as it was.
\<close>

theorem signup_body:
  "fetch_log (snd (signup env w c)) =
     fetch_log w
     @ [(buildUrl env ''/auth/signup'' None,
         \<lparr>init_method = POST, init_headers = default_headers, init_requireAuth = Some False,
          init_body = Some (SentText (JSON_stringify env
            (JObj [(''email'', JStr (email c)), (''password'', JStr (password c)),
                   (''firstName'', JStr (firstName c)), (''lastName'', JStr (lastName c))])))\<rparr>)]
   \<and> signup env w (c\<lparr>confirmPassword := x\<rparr>) = signup env w c
   \<and> (password c \<noteq> confirmPassword c \<longrightarrow>
        submit is_email env w c = (ValidationFailed (signupSchema is_email c), w)
        \<and> signupSchema is_email c \<noteq> [])"
proof (intro conjI impI)
  show "fetch_log (snd (signup env w c)) =
     fetch_log w
     @ [(buildUrl env ''/auth/signup'' None,
         \<lparr>init_method = POST, init_headers = default_headers, init_requireAuth = Some False,
          init_body = Some (SentText (JSON_stringify env
            (JObj [(''email'', JStr (email c)), (''password'', JStr (password c)),
                   (''firstName'', JStr (firstName c)), (''lastName'', JStr (lastName c))])))\<rparr>)]"
    by (simp add: signup_fetch_log signup_post_world)
  show "signup env w (c\<lparr>confirmPassword := x\<rparr>) = signup env w c"
    by (simp add: signup_def signup_post_ignores_confirmPassword)
  assume d: "password c \<noteq> confirmPassword c"
  then show i: "signupSchema is_email c \<noteq> []"
    by (simp add: signupSchema_def)
  then show "submit is_email env w c = (ValidationFailed (signupSchema is_email c), w)"
    by (simp add: submit_def Let_def)
qed

theorem signup_body_witness:
  "signup (login_backend ''T1'' None) signed_out (sample_signup\<lparr>confirmPassword := ''other''\<rparr>)
     = signup (login_backend ''T1'' None) signed_out sample_signup
   \<and> map (\<lambda>call. init_body (snd call))
        (fetch_log (snd (signup (login_backend ''T1'' None) signed_out sample_signup)))
      = [Some (SentText (json_text
          (JObj [(''email'', JStr ''a@b.com''), (''password'', JStr ''secret123''),
                 (''firstName'', JStr ''Ada''), (''lastName'', JStr ''Byron'')])))]
   \<and> submit contains_at (login_backend ''T1'' None) signed_out sample_signup
      = (ValidationFailed [(''confirmPassword'', ''Passwords don'' @ [CHR 0x27] @ ''t match'')],
         signed_out)"
proof -
  let ?e = "login_backend ''T1'' None"
  note t = signup_body [of ?e signed_out sample_signup "''other''" contains_at]
  have ne: "password sample_signup \<noteq> confirmPassword sample_signup"
    by (simp add: sample_signup_def)
  have sch: "signupSchema contains_at sample_signup
      = [(''confirmPassword'', ''Passwords don'' @ [CHR 0x27] @ ''t match'')]"
    by (simp add: signupSchema_def sample_signup_def contains_at_def)
  have bt: "JSON_stringify ?e
            (JObj [(''email'', JStr (email sample_signup)), (''password'', JStr (password sample_signup)),
                   (''firstName'', JStr (firstName sample_signup)),
                   (''lastName'', JStr (lastName sample_signup))])
     = json_text
          (JObj [(''email'', JStr ''a@b.com''), (''password'', JStr ''secret123''),
                 (''firstName'', JStr ''Ada''), (''lastName'', JStr ''Byron'')])"
    by (simp add: login_backend_def platform_def sample_signup_def)
  show ?thesis
  proof (intro conjI)
    show "signup ?e signed_out (sample_signup\<lparr>confirmPassword := ''other''\<rparr>)
        = signup ?e signed_out sample_signup"
      by (rule t [THEN conjunct2, THEN conjunct1])
    show "map (\<lambda>call. init_body (snd call)) (fetch_log (snd (signup ?e signed_out sample_signup)))
      = [Some (SentText (json_text
          (JObj [(''email'', JStr ''a@b.com''), (''password'', JStr ''secret123''),
                 (''firstName'', JStr ''Ada''), (''lastName'', JStr ''Byron'')])))]"
      by (simp only: t [THEN conjunct1] bt) (simp add: signed_out_def stored_def)
    show "submit contains_at ?e signed_out sample_signup
      = (ValidationFailed [(''confirmPassword'', ''Passwords don'' @ [CHR 0x27] @ ''t match'')],
         signed_out)"
      using t [THEN conjunct2, THEN conjunct2, rule_format, OF ne, THEN conjunct1]
      by (simp only: sch)
  qed
qed

end
